theory Spec2Isabelle
  imports Main "HOL-Library.Sublist" "HOL-Library.Char_ord" "HOL-Library.List_Lexorder"
    "HOL-Library.AList"
begin

section \<open>JavaScript strings\<close>

text \<open>
  A JavaScript string is a sequence of UTF-16 code units and \<open>.length\<close> counts them.
  The model uses \<^typ>\<open>string\<close>, one \<^typ>\<open>char\<close> per code unit, so it covers the
  manifests whose code units are below 256. Comparison of characters is comparison of
  code units, as in \<open>Array.prototype.sort\<close> without a comparator.
\<close>

definition squote :: char where
  "squote = CHR 0x27"

definition dquote :: char where
  "dquote = CHR 0x22"

text \<open>
  The code units below 256 that \<open>String.prototype.trim\<close> removes: TAB, LF, VT, FF, CR,
  SPACE and NO-BREAK SPACE.
\<close>

definition is_ws :: "char \<Rightarrow> bool" where
  "is_ws c = (c \<in> {CHR 0x09, CHR 0x0A, CHR 0x0B, CHR 0x0C, CHR 0x0D, CHR 0x20, CHR 0xA0})"

definition trim :: "string \<Rightarrow> string" where
  "trim s = rev (dropWhile is_ws (rev (dropWhile is_ws s)))"

text \<open>\<open>s.split(sep)\<close> for a separator of one character: never the empty array.\<close>

fun split_on :: "char \<Rightarrow> string \<Rightarrow> string list" where
  "split_on sep [] = [[]]"
| "split_on sep (c # cs) =
     (if c = sep then [] # split_on sep cs
      else (case split_on sep cs of [] \<Rightarrow> [[c]] | p # ps \<Rightarrow> (c # p) # ps))"

text \<open>\<open>parts.join(sep)\<close>.\<close>

fun join_with :: "string \<Rightarrow> string list \<Rightarrow> string" where
  "join_with sep [] = []"
| "join_with sep [p] = p"
| "join_with sep (p # q # ps) = p @ sep @ join_with sep (q # ps)"

text \<open>
  \<open>s.slice(start, fin)\<close> as ECMAScript defines it: a negative index counts from the end,
  both are clamped to the string, and an empty span gives the empty string.
\<close>

definition slice :: "int \<Rightarrow> int \<Rightarrow> string \<Rightarrow> string" where
  "slice start fin s =
     (let len = int (length s);
          from = (if start < 0 then max (len + start) 0 else min start len);
          to = (if fin < 0 then max (len + fin) 0 else min fin len);
          span = max (to - from) 0
      in take (nat span) (drop (nat from) s))"

text \<open>\<open>s.includes(pat)\<close>: \<open>pat\<close> occurs in \<open>s\<close> as a contiguous substring.\<close>

fun includes_str :: "string \<Rightarrow> string \<Rightarrow> bool" where
  "includes_str [] pat = (pat = [])"
| "includes_str (c # cs) pat = (prefix pat (c # cs) \<or> includes_str cs pat)"

text \<open>The decimal numeral that a template literal prints for a length.\<close>

definition digit_char :: "nat \<Rightarrow> char" where
  "digit_char d = ''0123456789'' ! d"

fun string_of_nat :: "nat \<Rightarrow> string" where
  "string_of_nat n =
     (if n < 10 then [digit_char n]
      else string_of_nat (n div 10) @ [digit_char (n mod 10)])"

declare string_of_nat.simps [simp del]

section \<open>The validation result\<close>

record validation_result =
  valid :: bool
  message :: string

definition failure :: "string \<Rightarrow> validation_result" where
  "failure msg = \<lparr>valid = False, message = msg\<rparr>"

definition success :: "string \<Rightarrow> validation_result" where
  "success msg = \<lparr>valid = True, message = msg\<rparr>"

section \<open>Extracting the frontmatter block\<close>

text \<open>
  The regular expression \<^verbatim>\<open>/^---\n([\s\S]*?)\n---/\<close> has no flags: \<^verbatim>\<open>^\<close> is the start of
  the text. The lazy group takes the shortest text after which \<^verbatim>\<open>\n---\<close> follows;
  \<open>lazy_body\<close> is that search, one character at a time, on the text after the opening
  \<^verbatim>\<open>---\n\<close>.
\<close>

fun lazy_body :: "string \<Rightarrow> string option" where
  "lazy_body [] = None"
| "lazy_body (c # cs) =
     (if prefix ''\<newline>---'' (c # cs) then Some []
      else map_option ((#) c) (lazy_body cs))"

definition match_frontmatter :: "string \<Rightarrow> string option" where
  "match_frontmatter content =
     (if prefix ''---\<newline>'' content then lazy_body (drop 4 content) else None)"

section \<open>The frontmatter object\<close>

text \<open>
  \<open>frontmatter\<close> is a plain object created by \<open>{}\<close>: its own properties in insertion
  order, with \<open>Object.prototype\<close> as prototype. An assignment \<open>frontmatter[key] = value\<close>
  creates or overwrites an own property, except for the key \<open>__proto__\<close>: that one is
  the accessor of \<open>Object.prototype\<close>, whose setter ignores a value that is neither an
  object nor null, so a string assigned to it is dropped and no own property appears.

  \<open>Object.keys\<close> lists integer-like keys before the others; its only consumer sorts the
  keys, so the model keeps insertion order. \<open>frontmatter[key]\<close> is read for \<open>name\<close> and
  \<open>description\<close> only, which \<open>Object.prototype\<close> does not define: a key that is not an
  own property reads as \<open>undefined\<close>, here \<open>None\<close>.
\<close>

type_synonym js_object = "(string \<times> string) list"

definition set_property :: "js_object \<Rightarrow> string \<Rightarrow> string \<Rightarrow> js_object" where
  "set_property obj key v = (if key = ''__proto__'' then obj else AList.update key v obj)"

definition get_property :: "js_object \<Rightarrow> string \<Rightarrow> string option" where
  "get_property obj key = map_of obj key"

definition object_keys :: "js_object \<Rightarrow> string list" where
  "object_keys obj = map fst obj"

text \<open>The quote handling of one value (lines 59 to 61).\<close>

definition strip_quotes :: "string \<Rightarrow> string" where
  "strip_quotes v =
     (if (prefix [dquote] v \<and> suffix [dquote] v) \<or> (prefix [squote] v \<and> suffix [squote] v)
      then slice 1 (- 1) v else v)"

text \<open>One iteration of the loop over the lines (lines 49 to 65).\<close>

definition parse_line :: "js_object \<Rightarrow> string \<Rightarrow> js_object" where
  "parse_line frontmatter line =
     (if trim line = [] \<or> prefix ''#'' (trim line) then frontmatter
      else
        (let parts = split_on CHR '':'' line in
         if length parts \<ge> 2 then
           (let key = trim (hd parts);
                v = trim (join_with '':'' (tl parts))
            in set_property frontmatter key (strip_quotes v))
         else frontmatter))"

definition parse_frontmatter :: "string \<Rightarrow> js_object" where
  "parse_frontmatter frontmatterText =
     foldl parse_line [] (split_on CHR ''\<newline>'' frontmatterText)"

section \<open>The validator\<close>

definition ALLOWED_PROPERTIES :: "string list" where
  "ALLOWED_PROPERTIES = [''name'', ''description'', ''license'', ''allowed-tools'', ''metadata'']"

text \<open>The test \<^verbatim>\<open>/^[a-z0-9-]+$/\<close>: one character or more, each of the class.\<close>

definition hyphen_case_char :: "char \<Rightarrow> bool" where
  "hyphen_case_char c =
     ((CHR ''a'' \<le> c \<and> c \<le> CHR ''z'') \<or> (CHR ''0'' \<le> c \<and> c \<le> CHR ''9'') \<or> c = CHR ''-'')"

definition hyphen_case :: "string \<Rightarrow> bool" where
  "hyphen_case name = (name \<noteq> [] \<and> list_all hyphen_case_char name)"

definition msg_unexpected :: "string list \<Rightarrow> string" where
  "msg_unexpected unexpectedKeys =
     ''Unexpected key(s) in SKILL.md frontmatter: '' @ join_with '', '' (sort unexpectedKeys)
     @ ''. Allowed properties are: '' @ join_with '', '' (sort ALLOWED_PROPERTIES)"

definition msg_missing_name :: string where
  "msg_missing_name = ''Missing '' @ [squote] @ ''name'' @ [squote] @ '' in frontmatter''"

definition msg_missing_description :: string where
  "msg_missing_description =
     ''Missing '' @ [squote] @ ''description'' @ [squote] @ '' in frontmatter''"

definition msg_not_hyphen_case :: "string \<Rightarrow> string" where
  "msg_not_hyphen_case name =
     ''Name '' @ [squote] @ name @ [squote]
     @ '' should be hyphen-case (lowercase letters, digits, and hyphens only)''"

definition msg_hyphen_placement :: "string \<Rightarrow> string" where
  "msg_hyphen_placement name =
     ''Name '' @ [squote] @ name @ [squote]
     @ '' cannot start/end with hyphen or contain consecutive hyphens''"

definition msg_name_too_long :: "string \<Rightarrow> string" where
  "msg_name_too_long name =
     ''Name is too long ('' @ string_of_nat (length name)
     @ '' characters). Maximum is 64 characters.''"

definition msg_angle_brackets :: string where
  "msg_angle_brackets = ''Description cannot contain angle brackets (< or >)''"

definition msg_description_too_long :: "string \<Rightarrow> string" where
  "msg_description_too_long description =
     ''Description is too long ('' @ string_of_nat (length description)
     @ '' characters). Maximum is 1024 characters.''"

text \<open>
  Lines 81 to 110, on the parsed object. \<open>!frontmatter['name']\<close> holds for \<open>undefined\<close>
  and for the empty string.
\<close>

definition check_fields :: "js_object \<Rightarrow> validation_result" where
  "check_fields frontmatter =
     (case get_property frontmatter ''name'' of
        None \<Rightarrow> failure msg_missing_name
      | Some name \<Rightarrow>
          if name = [] then failure msg_missing_name
          else
            (case get_property frontmatter ''description'' of
               None \<Rightarrow> failure msg_missing_description
             | Some description \<Rightarrow>
                 if description = [] then failure msg_missing_description
                 else if \<not> hyphen_case name then failure (msg_not_hyphen_case name)
                 else if prefix ''-'' name \<or> suffix ''-'' name \<or> includes_str name ''--''
                   then failure (msg_hyphen_placement name)
                 else if length name > 64 then failure (msg_name_too_long name)
                 else if includes_str description ''<'' \<or> includes_str description ''>''
                   then failure msg_angle_brackets
                 else if length description > 1024
                   then failure (msg_description_too_long description)
                 else success ''Skill is valid!''))"

text \<open>Lines 67 to 110, on the parsed object.\<close>

definition check_frontmatter :: "js_object \<Rightarrow> validation_result" where
  "check_frontmatter frontmatter =
     (let keys = object_keys frontmatter;
          unexpectedKeys = filter (\<lambda>k. k \<notin> set ALLOWED_PROPERTIES) keys
      in if length unexpectedKeys > 0 then failure (msg_unexpected unexpectedKeys)
         else check_fields frontmatter)"

text \<open>Lines 29 to 110: what \<open>validateSkill\<close> does with the text it has read.\<close>

definition validate_content :: "string \<Rightarrow> validation_result" where
  "validate_content content =
     (if \<not> prefix ''---'' content then failure ''No YAML frontmatter found''
      else
        (case match_frontmatter content of
           None \<Rightarrow> failure ''Invalid frontmatter format''
         | Some frontmatterText \<Rightarrow> check_frontmatter (parse_frontmatter frontmatterText)))"

section \<open>The platform\<close>

text \<open>
  What the scripts use of Node.js and of the machine. The functions of the \<open>path\<close> module
  and the answers of the file system, of \<open>mkdir\<close> and of the shell are not code of the
  repository: they are parameters. \<open>read_file\<close> gives \<open>Inr\<close> the text or \<open>Inl\<close> the
  message of the error thrown; \<open>mkdir_recursive\<close> and \<open>exec\<close> give the message of the
  error when they fail. The file system does not change while one call runs.
\<close>

record platform =
  path_resolve :: "string \<Rightarrow> string"
  path_join :: "string \<Rightarrow> string \<Rightarrow> string"
  path_basename :: "string \<Rightarrow> string"
  path_dirname :: "string \<Rightarrow> string"
  process_cwd :: string
  exists_sync :: "string \<Rightarrow> bool"
  is_directory :: "string \<Rightarrow> bool"
  read_file :: "string \<Rightarrow> string + string"
  mkdir_recursive :: "string \<Rightarrow> string option"
  exec :: "string \<Rightarrow> string option"

text \<open>The calls a script makes on the outside world, in the order it makes them.\<close>

datatype event =
    ExistsSync string
  | StatSync string
  | ReadFile string
  | Mkdir string
  | Exec string
  | ConsoleLog string
  | ConsoleError string

section \<open>validateSkill\<close>

definition skillMdPath :: "platform \<Rightarrow> string \<Rightarrow> string" where
  "skillMdPath sys skillPath = path_join sys (path_resolve sys skillPath) ''SKILL.md''"

definition validateSkill :: "platform \<Rightarrow> string \<Rightarrow> validation_result \<times> event list" where
  "validateSkill sys skillPath =
     (let md = skillMdPath sys skillPath in
      if \<not> exists_sync sys md then (failure ''SKILL.md not found'', [ExistsSync md])
      else
        (case read_file sys md of
           Inl e \<Rightarrow> (failure (''Could not read SKILL.md: '' @ e), [ExistsSync md, ReadFile md])
         | Inr content \<Rightarrow> (validate_content content, [ExistsSync md, ReadFile md])))"

section \<open>packageSkill\<close>

text \<open>
  The three symbols of the console lines are outside the code units the model has; each
  stands here by the bytes of its UTF-8 encoding (U+274C, U+1F50D, U+2705).
\<close>

definition cross_mark :: string where
  "cross_mark = [CHR 0xE2, CHR 0x9D, CHR 0x8C]"

definition magnifier :: string where
  "magnifier = [CHR 0xF0, CHR 0x9F, CHR 0x94, CHR 0x8D]"

definition check_mark :: string where
  "check_mark = [CHR 0xE2, CHR 0x9C, CHR 0x85]"

text \<open>
  An \<open>async\<close> function returns a value or rejects: \<open>mkdir\<close> is awaited outside the
  \<open>try\<close>, so its error rejects the promise of \<open>packageSkill\<close>.
\<close>

datatype 'a outcome = Returned 'a | Rejected string

definition zip_command :: "string \<Rightarrow> string \<Rightarrow> string \<Rightarrow> string" where
  "zip_command parentDir skillFilename targetName =
     ''cd '' @ [dquote] @ parentDir @ [dquote] @ '' && zip -r '' @ [dquote] @ skillFilename
     @ [dquote] @ '' '' @ [dquote] @ targetName @ [dquote]"

text \<open>
  Lines 53 to 61. \<open>if (outputDir)\<close> is false for \<open>null\<close> and for the empty string; the
  result is \<open>Inr\<close> the output path, or \<open>Inl\<close> the error of \<open>mkdir\<close>.
\<close>

definition resolve_output :: "platform \<Rightarrow> string option \<Rightarrow> (string + string) \<times> event list" where
  "resolve_output sys outputDir =
     (case outputDir of
        None \<Rightarrow> (Inr (process_cwd sys), [])
      | Some d \<Rightarrow>
          if d = [] then (Inr (process_cwd sys), [])
          else
            (let outputPath = path_resolve sys d in
             case mkdir_recursive sys outputPath of
               None \<Rightarrow> (Inr outputPath, [Mkdir outputPath])
             | Some e \<Rightarrow> (Inl e, [Mkdir outputPath])))"

text \<open>Lines 63 to 94.\<close>

definition invoke_archiver ::
  "platform \<Rightarrow> string \<Rightarrow> string \<Rightarrow> string \<Rightarrow> string option \<times> event list" where
  "invoke_archiver sys skillPath skillName outputPath =
     (let skillFilename = path_join sys outputPath (skillName @ ''.skill'');
          parentDir = path_dirname sys skillPath;
          targetName = path_basename sys skillPath;
          cmd = zip_command parentDir skillFilename targetName;
          ran = [ConsoleLog (''Executing: '' @ cmd), Exec cmd]
      in case exec sys cmd of
           None \<Rightarrow>
             (Some skillFilename,
              ran @ [ConsoleLog (''\<newline>'' @ check_mark
                       @ '' Successfully packaged skill to: '' @ skillFilename)])
         | Some e \<Rightarrow>
             (None,
              ran @ [ConsoleError (cross_mark @ '' Error creating .skill file: '' @ e)]))"

text \<open>Lines 53 to 94: the steps after a successful validation.\<close>

definition create_archive ::
  "platform \<Rightarrow> string \<Rightarrow> string option \<Rightarrow> string option outcome \<times> event list" where
  "create_archive sys skillPath outputDir =
     (let skillName = path_basename sys skillPath;
          (resolved, made) = resolve_output sys outputDir
      in case resolved of
           Inl e \<Rightarrow> (Rejected e, made)
         | Inr outputPath \<Rightarrow>
             (let (res, ran) = invoke_archiver sys skillPath skillName outputPath
              in (Returned res, made @ ran)))"

definition packageSkill ::
  "platform \<Rightarrow> string \<Rightarrow> string option \<Rightarrow> string option outcome \<times> event list" where
  "packageSkill sys skillPath0 outputDir =
     (let skillPath = path_resolve sys skillPath0 in
      if \<not> exists_sync sys skillPath
      then (Returned None,
            [ExistsSync skillPath,
             ConsoleError (cross_mark @ '' Error: Skill folder not found: '' @ skillPath)])
      else if \<not> is_directory sys skillPath
      then (Returned None,
            [ExistsSync skillPath, StatSync skillPath,
             ConsoleError (cross_mark @ '' Error: Path is not a directory: '' @ skillPath)])
      else
        (let skillMd = path_join sys skillPath ''SKILL.md'';
             checked = [ExistsSync skillPath, StatSync skillPath, ExistsSync skillMd]
         in if \<not> exists_sync sys skillMd
            then (Returned None,
                  checked @ [ConsoleError (cross_mark @ '' Error: SKILL.md not found in ''
                               @ skillPath)])
            else
              (let (result, reads) = validateSkill sys skillPath;
                   validated = checked @ [ConsoleLog (magnifier @ '' Validating skill...'')]
                     @ reads
               in if \<not> valid result
                  then (Returned None,
                        validated
                        @ [ConsoleError (cross_mark @ '' Validation failed: '' @ message result),
                           ConsoleError
                             ''   Please fix the validation errors before packaging.''])
                  else
                    (let (res, evs) = create_archive sys skillPath outputDir
                     in (res,
                         validated
                         @ [ConsoleLog (check_mark @ '' '' @ message result @ ''\<newline>'')]
                         @ evs)))))"

text \<open>The lines a run writes with \<open>console.error\<close>, in order.\<close>

definition console_errors :: "event list \<Rightarrow> string list" where
  "console_errors evs = concat (map (\<lambda>e. case e of ConsoleError m \<Rightarrow> [m] | _ \<Rightarrow> []) evs)"

section \<open>The parsed header\<close>

text \<open>
  Lines 13 to 65: the object \<open>frontmatter\<close> that the checks of lines 67 to 110 see, when
  the manifest exists, can be read and has a frontmatter block.
\<close>

definition parsed_header :: "platform \<Rightarrow> string \<Rightarrow> js_object option" where
  "parsed_header sys skillPath =
     (if exists_sync sys (skillMdPath sys skillPath) then
        (case read_file sys (skillMdPath sys skillPath) of
           Inl e \<Rightarrow> None
         | Inr content \<Rightarrow>
             if prefix ''---'' content
             then map_option parse_frontmatter (match_frontmatter content) else None)
      else None)"

section \<open>The rules of the specification\<close>

text \<open>
  This section is written from the specification and the claims, not from the scripts.
  It uses the platform (the manifest path, \<open>trim\<close>, \<open>split\<close>, \<open>join\<close>, the decimal
  numeral) and none of the definitions that model \<open>quick_validate.js\<close>: the messages are
  written out, the header is found and parsed by functions of its own.

  The text of the manifest, when it exists and can be read.
\<close>

type_synonym header = "(string \<times> string) list"

definition manifest_text :: "platform \<Rightarrow> string \<Rightarrow> string option" where
  "manifest_text sys p =
     (if exists_sync sys (skillMdPath sys p) then
        (case read_file sys (skillMdPath sys p) of
           Inl e \<Rightarrow> None
         | Inr content \<Rightarrow> Some content)
      else None)"

text \<open>
  The header block as the specification words it: the first line is exactly the
  delimiter, a later line is exactly the delimiter, and the block is the lines between
  the opening line and the first such line.
\<close>

definition claimed_header_block :: "string \<Rightarrow> string option" where
  "claimed_header_block content =
     (let ls = split_on CHR ''\<newline>'' content in
      if hd ls = ''---'' \<and> ''---'' \<in> set (tl ls)
      then Some (join_with ''\<newline>'' (takeWhile (\<lambda>l. l \<noteq> ''---'') (tl ls)))
      else None)"

text \<open>
  The header block as claims C3 and C5 are amended: the text starts with the delimiter
  and a newline, and the block ends before the first later newline that the three
  delimiter characters follow. \<open>closing_positions\<close> lists the places of such newlines
  in the text after the opening line.
\<close>

definition closing_positions :: "string \<Rightarrow> nat list" where
  "closing_positions rest =
     filter (\<lambda>i. take 4 (drop i rest) = ''\<newline>---'') [0..<length rest]"

definition header_block :: "string \<Rightarrow> string option" where
  "header_block content =
     (if take 4 content = ''---\<newline>'' then
        (case closing_positions (drop 4 content) of
           [] \<Rightarrow> None
         | i # later \<Rightarrow> Some (take i (drop 4 content)))
      else None)"

text \<open>
  The field of one header line, as section 4.1 of the specification and claims C6 and
  C10 give it: blank lines, comment lines and lines without a colon have none; otherwise
  the name is the trimmed text before the first colon and the value the trimmed text after
  it, without its first and last character when these are the same quote character (the
  value that is one quote character alone becomes empty, C10).
\<close>

definition unquote :: "string \<Rightarrow> string" where
  "unquote v =
     (if v \<noteq> [] \<and> hd v = last v \<and> (hd v = CHR 0x22 \<or> hd v = CHR 0x27)
      then butlast (tl v) else v)"

definition header_field :: "string \<Rightarrow> (string \<times> string) option" where
  "header_field line =
     (if trim line = [] \<or> take 1 (trim line) = ''#'' \<or> CHR '':'' \<notin> set line then None
      else Some (trim (takeWhile (\<lambda>c. c \<noteq> CHR '':'') line),
                 unquote (trim (drop 1 (dropWhile (\<lambda>c. c \<noteq> CHR '':'') line)))))"

text \<open>
  The header: a flat mapping from field names to values in which the last occurrence of
  a name wins. Every field line of the block is in it, whatever its name.
\<close>

definition store_field :: "header \<Rightarrow> string \<Rightarrow> header" where
  "store_field flds line =
     (case header_field line of None \<Rightarrow> flds | Some (k, v) \<Rightarrow> AList.update k v flds)"

definition header_fields :: "string \<Rightarrow> header" where
  "header_fields block = foldl store_field [] (split_on CHR ''\<newline>'' block)"

definition claimed_manifest_header :: "platform \<Rightarrow> string \<Rightarrow> header option" where
  "claimed_manifest_header sys p =
     (case manifest_text sys p of
        None \<Rightarrow> None
      | Some content \<Rightarrow> map_option header_fields (claimed_header_block content))"

definition manifest_header :: "platform \<Rightarrow> string \<Rightarrow> header option" where
  "manifest_header sys p =
     (case manifest_text sys p of
        None \<Rightarrow> None
      | Some content \<Rightarrow> map_option header_fields (header_block content))"

text \<open>
  A rule gives the message of its violation, and \<open>first_violation\<close> reports the first
  rule of a list that is violated. A rule on the header, or on a field, is not violated
  where there is no header, or no such field.
\<close>

type_synonym rule = "platform \<Rightarrow> string \<Rightarrow> string option"

fun first_violation :: "rule list \<Rightarrow> platform \<Rightarrow> string \<Rightarrow> string option" where
  "first_violation [] sys p = None"
| "first_violation (r # rs) sys p =
     (case r sys p of Some m \<Rightarrow> Some m | None \<Rightarrow> first_violation rs sys p)"

definition on_header ::
  "(platform \<Rightarrow> string \<Rightarrow> header option) \<Rightarrow> (header \<Rightarrow> string option) \<Rightarrow> rule" where
  "on_header hdr r sys p = (case hdr sys p of None \<Rightarrow> None | Some flds \<Rightarrow> r flds)"

definition field_rule :: "string \<Rightarrow> (string \<Rightarrow> string option) \<Rightarrow> header \<Rightarrow> string option" where
  "field_rule key r flds = (case map_of flds key of None \<Rightarrow> None | Some v \<Rightarrow> r v)"

text \<open>Rules 1 and 2: the manifest exists and can be read.\<close>

definition rule_manifest_exists :: rule where
  "rule_manifest_exists sys p =
     (if exists_sync sys (skillMdPath sys p) then None else Some ''SKILL.md not found'')"

definition rule_manifest_readable :: rule where
  "rule_manifest_readable sys p =
     (case read_file sys (skillMdPath sys p) of
        Inl e \<Rightarrow> Some (''Could not read SKILL.md: '' @ e)
      | Inr content \<Rightarrow> None)"

text \<open>
  Rule 3, the header can be parsed: as the specification words it (delimiter lines), and
  as amended (the three characters, then the block of \<open>header_block\<close>).
\<close>

definition claimed_rule_header_parseable :: rule where
  "claimed_rule_header_parseable sys p =
     (case manifest_text sys p of
        None \<Rightarrow> None
      | Some content \<Rightarrow>
          if hd (split_on CHR ''\<newline>'' content) \<noteq> ''---''
          then Some ''No YAML frontmatter found''
          else if ''---'' \<notin> set (tl (split_on CHR ''\<newline>'' content))
          then Some ''Invalid frontmatter format''
          else None)"

definition rule_header_parseable :: rule where
  "rule_header_parseable sys p =
     (case manifest_text sys p of
        None \<Rightarrow> None
      | Some content \<Rightarrow>
          if take 3 content \<noteq> ''---'' then Some ''No YAML frontmatter found''
          else if header_block content = None then Some ''Invalid frontmatter format''
          else None)"

text \<open>Rule 4, the allow-list, on the names of all fields of the header.\<close>

definition allowed_names :: "string set" where
  "allowed_names = {''name'', ''description'', ''license'', ''allowed-tools'', ''metadata''}"

definition allow_list_rule :: "header \<Rightarrow> string option" where
  "allow_list_rule flds =
     (if set (map fst flds) \<subseteq> allowed_names then None
      else Some (''Unexpected key(s) in SKILL.md frontmatter: ''
             @ join_with '', '' (sorted_list_of_set (set (map fst flds) - allowed_names))
             @ ''. Allowed properties are: allowed-tools, description, license, metadata, name''))"

text \<open>
  Rules 5 and 6, a field is present: as the specification words it (the field is there),
  and as amended (the field is there and its value is not empty).
\<close>

definition claimed_name_present_rule :: "header \<Rightarrow> string option" where
  "claimed_name_present_rule flds =
     (if map_of flds ''name'' = None
      then Some (''Missing '' @ [CHR 0x27] @ ''name'' @ [CHR 0x27] @ '' in frontmatter'')
      else None)"

definition claimed_description_present_rule :: "header \<Rightarrow> string option" where
  "claimed_description_present_rule flds =
     (if map_of flds ''description'' = None
      then Some (''Missing '' @ [CHR 0x27] @ ''description'' @ [CHR 0x27] @ '' in frontmatter'')
      else None)"

definition name_present_rule :: "header \<Rightarrow> string option" where
  "name_present_rule flds =
     (if map_of flds ''name'' = None \<or> map_of flds ''name'' = Some []
      then Some (''Missing '' @ [CHR 0x27] @ ''name'' @ [CHR 0x27] @ '' in frontmatter'')
      else None)"

definition description_present_rule :: "header \<Rightarrow> string option" where
  "description_present_rule flds =
     (if map_of flds ''description'' = None \<or> map_of flds ''description'' = Some []
      then Some (''Missing '' @ [CHR 0x27] @ ''description'' @ [CHR 0x27] @ '' in frontmatter'')
      else None)"

text \<open>Rules 7 to 11, on the values of \<open>name\<close> and \<open>description\<close>.\<close>

definition name_charset_rule :: "header \<Rightarrow> string option" where
  "name_charset_rule =
     field_rule ''name'' (\<lambda>name.
       if name \<noteq> []
          \<and> (\<forall>c \<in> set name. (CHR ''a'' \<le> c \<and> c \<le> CHR ''z'') \<or> (CHR ''0'' \<le> c \<and> c \<le> CHR ''9'')
                \<or> c = CHR ''-'')
       then None
       else Some (''Name '' @ [CHR 0x27] @ name @ [CHR 0x27]
              @ '' should be hyphen-case (lowercase letters, digits, and hyphens only)''))"

definition name_hyphen_placement_rule :: "header \<Rightarrow> string option" where
  "name_hyphen_placement_rule =
     field_rule ''name'' (\<lambda>name.
       if prefix ''-'' name \<or> suffix ''-'' name \<or> sublist ''--'' name
       then Some (''Name '' @ [CHR 0x27] @ name @ [CHR 0x27]
              @ '' cannot start/end with hyphen or contain consecutive hyphens'')
       else None)"

definition name_length_rule :: "header \<Rightarrow> string option" where
  "name_length_rule =
     field_rule ''name'' (\<lambda>name.
       if length name > 64
       then Some (''Name is too long ('' @ string_of_nat (length name)
              @ '' characters). Maximum is 64 characters.'')
       else None)"

definition description_angle_brackets_rule :: "header \<Rightarrow> string option" where
  "description_angle_brackets_rule =
     field_rule ''description'' (\<lambda>description.
       if CHR ''<'' \<in> set description \<or> CHR ''>'' \<in> set description
       then Some ''Description cannot contain angle brackets (< or >)''
       else None)"

definition description_length_rule :: "header \<Rightarrow> string option" where
  "description_length_rule =
     field_rule ''description'' (\<lambda>description.
       if length description > 1024
       then Some (''Description is too long ('' @ string_of_nat (length description)
              @ '' characters). Maximum is 1024 characters.'')
       else None)"

text \<open>
  The eleven rules in the order of the claim: as the specification words them, and as
  amended. The two lists differ in rule 3, in the header block the later rules read, and
  in rules 5 and 6.
\<close>

definition claimed_rules :: "rule list" where
  "claimed_rules =
     [rule_manifest_exists,
      rule_manifest_readable,
      claimed_rule_header_parseable,
      on_header claimed_manifest_header allow_list_rule,
      on_header claimed_manifest_header claimed_name_present_rule,
      on_header claimed_manifest_header claimed_description_present_rule,
      on_header claimed_manifest_header name_charset_rule,
      on_header claimed_manifest_header name_hyphen_placement_rule,
      on_header claimed_manifest_header name_length_rule,
      on_header claimed_manifest_header description_angle_brackets_rule,
      on_header claimed_manifest_header description_length_rule]"

definition validation_rules :: "rule list" where
  "validation_rules =
     [rule_manifest_exists,
      rule_manifest_readable,
      rule_header_parseable,
      on_header manifest_header allow_list_rule,
      on_header manifest_header name_present_rule,
      on_header manifest_header description_present_rule,
      on_header manifest_header name_charset_rule,
      on_header manifest_header name_hyphen_placement_rule,
      on_header manifest_header name_length_rule,
      on_header manifest_header description_angle_brackets_rule,
      on_header manifest_header description_length_rule]"

section \<open>A sample platform\<close>

text \<open>
  A small machine for the examples: one skill directory \<open>/skills/demo\<close>, whose manifest
  is absent (\<open>None\<close>) or has the given text, a working directory \<open>/work\<close>, and a
  \<open>mkdir\<close> and a shell that succeed.
\<close>

definition sample_platform :: "string option \<Rightarrow> platform" where
  "sample_platform manifest =
     \<lparr>path_resolve = (\<lambda>p. if prefix ''/'' p then p else ''/work/'' @ p),
      path_join = (\<lambda>a b. a @ ''/'' @ b),
      path_basename = (\<lambda>p. last (split_on CHR ''/'' p)),
      path_dirname = (\<lambda>p. join_with ''/'' (butlast (split_on CHR ''/'' p))),
      process_cwd = ''/work'',
      exists_sync = (\<lambda>p. p = ''/skills/demo''
                          \<or> (p = ''/skills/demo/SKILL.md'' \<and> manifest \<noteq> None)),
      is_directory = (\<lambda>p. p = ''/skills/demo''),
      read_file = (\<lambda>p. case manifest of
                          None \<Rightarrow> Inl ''ENOENT''
                        | Some text \<Rightarrow>
                            if p = ''/skills/demo/SKILL.md'' then Inr text else Inl ''ENOENT''),
      mkdir_recursive = (\<lambda>p. None),
      exec = (\<lambda>cmd. None)\<rparr>"

section \<open>Facts about the string functions\<close>

lemma includes_str_iff: "includes_str s pat \<longleftrightarrow> (\<exists>u v. s = u @ pat @ v)"
proof (induction s)
  case Nil
  then show ?case by auto
next
  case (Cons c cs)
  have "(\<exists>u v. c # cs = u @ pat @ v) \<longleftrightarrow> prefix pat (c # cs) \<or> (\<exists>u v. cs = u @ pat @ v)"
  proof
    assume "\<exists>u v. c # cs = u @ pat @ v"
    then obtain u v where uv: "c # cs = u @ pat @ v" by blast
    show "prefix pat (c # cs) \<or> (\<exists>u v. cs = u @ pat @ v)"
    proof (cases u)
      case Nil
      with uv show ?thesis by (simp add: prefix_def)
    next
      case (Cons a u')
      with uv have "cs = u' @ pat @ v" by simp
      then show ?thesis by blast
    qed
  next
    assume "prefix pat (c # cs) \<or> (\<exists>u v. cs = u @ pat @ v)"
    then show "\<exists>u v. c # cs = u @ pat @ v"
    proof
      assume "prefix pat (c # cs)"
      then obtain v where "c # cs = pat @ v" by (auto simp: prefix_def)
      then have "c # cs = [] @ pat @ v" by simp
      then show ?thesis by blast
    next
      assume "\<exists>u v. cs = u @ pat @ v"
      then obtain u v where "cs = u @ pat @ v" by blast
      then have "c # cs = (c # u) @ pat @ v" by simp
      then show ?thesis by blast
    qed
  qed
  with Cons show ?case by simp
qed

lemma includes_str_single: "includes_str s [c] \<longleftrightarrow> c \<in> set s"
  by (induction s) auto

lemma hyphen_case_iff:
  "hyphen_case name \<longleftrightarrow>
     name \<noteq> [] \<and> set name \<subseteq> {CHR ''a''..CHR ''z''} \<union> {CHR ''0''..CHR ''9''} \<union> {CHR ''-''}"
  by (auto simp: hyphen_case_def hyphen_case_char_def list_all_iff)

lemma split_on_not_Nil [simp]: "split_on c s \<noteq> []"
  by (induction s) (auto split: list.splits)

lemma prefix_hd_split_on: "prefix (hd (split_on c s)) s"
proof (induction s)
  case Nil
  then show ?case by simp
next
  case (Cons x xs)
  obtain q qs where q: "split_on c xs = q # qs"
    by (cases "split_on c xs") simp_all
  with Cons show ?case by auto
qed

lemma split_on_append:
  "split_on c (a @ c # b) = split_on c a @ split_on c b"
proof (induction a)
  case Nil
  then show ?case by simp
next
  case (Cons x a)
  obtain q qs where q: "split_on c a = q # qs"
    by (cases "split_on c a") simp_all
  with Cons show ?case by simp
qed

lemma split_on_no_sep: "c \<notin> set s \<Longrightarrow> split_on c s = [s]"
  by (induction s) auto

lemma split_on_first:
  "c \<notin> set k \<Longrightarrow> split_on c (k @ c # v) = k # split_on c v"
  by (simp add: split_on_append split_on_no_sep)

lemma join_with_split_on: "join_with [c] (split_on c s) = s"
proof (induction s)
  case Nil
  then show ?case by simp
next
  case (Cons x xs)
  obtain q qs where q: "split_on c xs = q # qs"
    by (cases "split_on c xs") simp_all
  show ?case
  proof (cases qs)
    case Nil
    with q Cons show ?thesis by auto
  next
    case (Cons q' qs')
    with q Cons.IH show ?thesis by auto
  qed
qed

lemma trim_Nil_iff: "trim s = [] \<longleftrightarrow> (\<forall>c \<in> set s. is_ws c)"
proof -
  have "trim s = [] \<longleftrightarrow> (\<forall>c \<in> set (dropWhile is_ws s). is_ws c)"
    by (simp add: trim_def dropWhile_eq_Nil_conv)
  also have "\<dots> \<longleftrightarrow> dropWhile is_ws s = []"
  proof
    assume a: "\<forall>c \<in> set (dropWhile is_ws s). is_ws c"
    show "dropWhile is_ws s = []"
    proof (rule ccontr)
      assume n: "dropWhile is_ws s \<noteq> []"
      then have "\<not> is_ws (hd (dropWhile is_ws s))" by (rule hd_dropWhile)
      moreover from n have "hd (dropWhile is_ws s) \<in> set (dropWhile is_ws s)" by simp
      ultimately show False using a by blast
    qed
  next
    assume e: "dropWhile is_ws s = []"
    show "\<forall>c \<in> set (dropWhile is_ws s). is_ws c" unfolding e by simp
  qed
  also have "\<dots> \<longleftrightarrow> (\<forall>c \<in> set s. is_ws c)"
    by (simp add: dropWhile_eq_Nil_conv)
  finally show ?thesis .
qed

lemma not_ws_colon: "\<not> is_ws CHR '':''"
  by (simp add: is_ws_def)

section \<open>Facts about the frontmatter block\<close>

lemma lazy_body_Some: "lazy_body s = Some b \<Longrightarrow> \<exists>r. s = b @ ''\<newline>---'' @ r"
proof (induction s arbitrary: b)
  case Nil
  then show ?case by simp
next
  case (Cons c cs)
  show ?case
  proof (cases "prefix ''\<newline>---'' (c # cs)")
    case True
    with Cons.prems have "b = []" by simp
    with True show ?thesis by (auto simp: prefix_def)
  next
    case False
    with Cons.prems obtain b' where b': "lazy_body cs = Some b'" "b = c # b'" by auto
    from Cons.IH[OF b'(1)] b'(2) show ?thesis by auto
  qed
qed

lemma lazy_body_first:
  "s = b' @ ''\<newline>---'' @ r' \<Longrightarrow> \<exists>b. lazy_body s = Some b \<and> length b \<le> length b'"
proof (induction s arbitrary: b')
  case Nil
  then show ?case by simp
next
  case (Cons c cs)
  show ?case
  proof (cases "prefix ''\<newline>---'' (c # cs)")
    case True
    then show ?thesis by simp
  next
    case False
    with Cons.prems obtain b'' where b'': "b' = c # b''" "cs = b'' @ ''\<newline>---'' @ r'"
      by (cases b') (auto simp: prefix_def)
    from Cons.IH[OF b''(2)] obtain b where "lazy_body cs = Some b" "length b \<le> length b''"
      by blast
    with False b''(1) show ?thesis by simp
  qed
qed

lemma append_eq_shorter:
  "b @ p @ r = b' @ p @ r' \<Longrightarrow> length b = length b' \<Longrightarrow> b = b'"
  by simp

lemma match_frontmatter_Some:
  "match_frontmatter content = Some b \<Longrightarrow> \<exists>r. content = ''---\<newline>'' @ b @ ''\<newline>---'' @ r"
proof -
  assume m: "match_frontmatter content = Some b"
  then have p: "prefix ''---\<newline>'' content" and l: "lazy_body (drop 4 content) = Some b"
    by (simp_all add: match_frontmatter_def split: if_splits)
  from p obtain rest where c: "content = ''---\<newline>'' @ rest"
    unfolding prefix_def by blast
  then have "drop 4 content = rest" by simp
  with lazy_body_Some[OF l] obtain r where "rest = b @ ''\<newline>---'' @ r" by auto
  with c show ?thesis by simp
qed

lemma match_frontmatter_first:
  assumes "content = ''---\<newline>'' @ b' @ ''\<newline>---'' @ r'"
  shows "\<exists>b. match_frontmatter content = Some b \<and> length b \<le> length b'"
proof -
  have d: "drop 4 content = b' @ ''\<newline>---'' @ r'" using assms by simp
  have p: "prefix ''---\<newline>'' content" using assms by (simp add: prefix_def)
  from lazy_body_first[OF d] p show ?thesis by (simp add: match_frontmatter_def)
qed

lemma match_frontmatter_None_iff:
  "match_frontmatter content = None
     \<longleftrightarrow> \<not> (\<exists>b r. content = ''---\<newline>'' @ b @ ''\<newline>---'' @ r)"
proof
  assume n: "match_frontmatter content = None"
  show "\<not> (\<exists>b r. content = ''---\<newline>'' @ b @ ''\<newline>---'' @ r)"
  proof
    assume "\<exists>b r. content = ''---\<newline>'' @ b @ ''\<newline>---'' @ r"
    then obtain b r where "content = ''---\<newline>'' @ b @ ''\<newline>---'' @ r" by blast
    from match_frontmatter_first[OF this] n show False by simp
  qed
next
  assume a: "\<not> (\<exists>b r. content = ''---\<newline>'' @ b @ ''\<newline>---'' @ r)"
  show "match_frontmatter content = None"
  proof (cases "match_frontmatter content")
    case None
    then show ?thesis .
  next
    case (Some b)
    from match_frontmatter_Some[OF this] a show ?thesis by blast
  qed
qed

lemma match_frontmatter_shortest:
  assumes c: "content = ''---\<newline>'' @ b @ ''\<newline>---'' @ r"
    and least: "\<And>b' r'. content = ''---\<newline>'' @ b' @ ''\<newline>---'' @ r' \<Longrightarrow> length b \<le> length b'"
  shows "match_frontmatter content = Some b"
proof -
  from match_frontmatter_first[OF c] obtain b0
    where b0: "match_frontmatter content = Some b0" "length b0 \<le> length b" by blast
  from match_frontmatter_Some[OF b0(1)] obtain r0
    where r0: "content = ''---\<newline>'' @ b0 @ ''\<newline>---'' @ r0" by blast
  from least[OF r0] b0(2) have "length b0 = length b" by simp
  moreover from r0 c have "b0 @ ''\<newline>---'' @ r0 = b @ ''\<newline>---'' @ r" by simp
  ultimately have "b0 = b" by (rule append_eq_shorter[rotated])
  with b0(1) show ?thesis by simp
qed

lemma match_frontmatter_prefix: "match_frontmatter content = Some t \<Longrightarrow> prefix ''---'' content"
  by (auto simp: match_frontmatter_def prefix_def split: if_splits)

section \<open>Facts about the parser\<close>

lemma parse_line_field:
  assumes "CHR '':'' \<notin> set k" and "\<not> prefix ''#'' (trim (k @ '':'' @ v))"
  shows "parse_line fm (k @ '':'' @ v) = set_property fm (trim k) (strip_quotes (trim v))"
proof -
  have "trim (k @ '':'' @ v) \<noteq> []"
    using not_ws_colon by (auto simp: trim_Nil_iff)
  moreover have "split_on CHR '':'' (k @ '':'' @ v) = k # split_on CHR '':'' v"
    using assms(1) split_on_first[of "CHR '':''" k v] by simp
  moreover have "length (split_on CHR '':'' v) \<ge> 1"
    by (cases "split_on CHR '':'' v") simp_all
  moreover have "join_with '':'' (split_on CHR '':'' v) = v"
    by (rule join_with_split_on)
  ultimately show ?thesis
    using assms(2) by (simp add: parse_line_def Let_def)
qed

lemma parse_line_skipped:
  "trim line = [] \<or> prefix ''#'' (trim line) \<or> CHR '':'' \<notin> set line \<Longrightarrow>
   parse_line fm line = fm"
  by (auto simp: parse_line_def split_on_no_sep)







lemma distinct_keys_parse_line:
  "distinct (object_keys fm) \<Longrightarrow> distinct (object_keys (parse_line fm line))"
  by (simp add: parse_line_def object_keys_def set_property_def Let_def distinct_update)

lemma distinct_keys_foldl:
  "distinct (object_keys fm) \<Longrightarrow> distinct (object_keys (foldl parse_line fm ls))"
  by (induction ls arbitrary: fm) (simp_all add: distinct_keys_parse_line)

lemma distinct_keys_parse_frontmatter: "distinct (object_keys (parse_frontmatter t))"
  unfolding parse_frontmatter_def by (rule distinct_keys_foldl) (simp add: object_keys_def)






section \<open>Facts about the validator\<close>

lemma valid_failure [simp]: "valid (failure m) = False" "message (failure m) = m"
  by (simp_all add: failure_def)

lemma valid_success [simp]: "valid (success m) = True" "message (success m) = m"
  by (simp_all add: success_def)

lemma failure_eq [simp]: "failure a = failure b \<longleftrightarrow> a = b"
  by (simp add: failure_def)

lemma failure_neq_success [simp]: "failure a \<noteq> success b" "success b \<noteq> failure a"
  by (simp_all add: failure_def success_def)

lemmas msg_defs =
  msg_unexpected_def msg_missing_name_def msg_missing_description_def msg_not_hyphen_case_def
  msg_hyphen_placement_def msg_name_too_long_def msg_angle_brackets_def
  msg_description_too_long_def

lemma sorted_allowed:
  "join_with '', '' (sort ALLOWED_PROPERTIES) = ''allowed-tools, description, license, metadata, name''"
  by (simp add: ALLOWED_PROPERTIES_def)

lemma sort_unexpected:
  assumes "distinct ks"
  shows "sort (filter (\<lambda>k. k \<notin> A) ks) = sorted_list_of_set (set ks - A)"
proof -
  let ?F = "filter (\<lambda>k. k \<notin> A) ks"
  have "distinct ?F" using assms by simp
  then have r: "remdups ?F = ?F" by (rule distinct_remdups_id)
  have "sorted_list_of_set (set ?F) = sort (remdups ?F)"
    by (rule sorted_list_of_set_sort_remdups)
  then have "sorted_list_of_set (set ?F) = sort ?F" by (simp only: r)
  moreover have "set ?F = set ks - A" by auto
  ultimately show ?thesis by (simp only:)
qed

lemma validateSkill_text:
  "exists_sync sys (skillMdPath sys p) \<Longrightarrow> read_file sys (skillMdPath sys p) = Inr content \<Longrightarrow>
   fst (validateSkill sys p) = validate_content content"
  by (simp add: validateSkill_def Let_def)

lemma parsed_header_Some:
  "parsed_header sys p = Some fm \<longleftrightarrow>
     exists_sync sys (skillMdPath sys p) \<and>
     (\<exists>content t. read_file sys (skillMdPath sys p) = Inr content \<and> prefix ''---'' content \<and>
        match_frontmatter content = Some t \<and> fm = parse_frontmatter t)"
  by (auto simp: parsed_header_def split: sum.splits if_splits)

lemma validateSkill_header:
  "parsed_header sys p = Some fm \<Longrightarrow> fst (validateSkill sys p) = check_frontmatter fm"
  by (auto simp: parsed_header_Some validateSkill_def Let_def validate_content_def)

lemma check_frontmatter_allowed:
  "set (object_keys fm) \<subseteq> set ALLOWED_PROPERTIES \<Longrightarrow> check_frontmatter fm = check_fields fm"
  by (auto simp: check_frontmatter_def Let_def filter_empty_conv)

lemma check_frontmatter_unexpected:
  "\<not> set (object_keys fm) \<subseteq> set ALLOWED_PROPERTIES \<Longrightarrow>
   check_frontmatter fm =
     failure (msg_unexpected (filter (\<lambda>k. k \<notin> set ALLOWED_PROPERTIES) (object_keys fm)))"
  by (auto simp: check_frontmatter_def Let_def filter_empty_conv)

lemma valid_check_fields:
  "valid (check_fields fm) \<longleftrightarrow>
     (\<exists>name description.
        get_property fm ''name'' = Some name \<and> get_property fm ''description'' = Some description \<and>
        name \<noteq> [] \<and> description \<noteq> [] \<and> hyphen_case name \<and>
        \<not> prefix ''-'' name \<and> \<not> suffix ''-'' name \<and> \<not> includes_str name ''--'' \<and>
        length name \<le> 64 \<and>
        \<not> includes_str description ''<'' \<and> \<not> includes_str description ''>'' \<and>
        length description \<le> 1024)"
  by (auto simp: check_fields_def split: option.splits)

lemma message_check_fields_not_parse_error:
  "message (check_fields fm) \<noteq> ''No YAML frontmatter found''"
  "message (check_fields fm) \<noteq> ''Invalid frontmatter format''"
  by (simp_all add: check_fields_def msg_defs split: option.splits)

lemma message_check_frontmatter_not_parse_error:
  "message (check_frontmatter fm) \<noteq> ''No YAML frontmatter found''"
  "message (check_frontmatter fm) \<noteq> ''Invalid frontmatter format''"
  by (simp_all add: check_frontmatter_def Let_def message_check_fields_not_parse_error
      msg_unexpected_def)

lemma message_no_header:
  assumes "parsed_header sys p = None"
  shows "message (fst (validateSkill sys p)) = ''SKILL.md not found''
       \<or> (\<exists>e. message (fst (validateSkill sys p)) = ''Could not read SKILL.md: '' @ e)
       \<or> message (fst (validateSkill sys p)) = ''No YAML frontmatter found''
       \<or> message (fst (validateSkill sys p)) = ''Invalid frontmatter format''"
  using assms
  by (simp add: parsed_header_def validateSkill_def Let_def validate_content_def
      split: if_splits sum.splits option.splits)

lemma message_unexpected_not_missing:
  "msg_unexpected ks \<noteq> msg_missing_name" "msg_unexpected ks \<noteq> msg_missing_description"
  by (simp_all add: msg_defs)

lemma check_fields_missing_name:
  "message (check_fields fm) = msg_missing_name
     \<longleftrightarrow> get_property fm ''name'' = None \<or> get_property fm ''name'' = Some []"
  by (simp add: check_fields_def msg_defs split: option.splits)

lemma check_fields_missing_description:
  "message (check_fields fm) = msg_missing_description
     \<longleftrightarrow> (\<exists>name. get_property fm ''name'' = Some name \<and> name \<noteq> [])
         \<and> (get_property fm ''description'' = None \<or> get_property fm ''description'' = Some [])"
  by (simp add: check_fields_def msg_defs split: option.splits)



lemma check_frontmatter_not_parse_failure:
  "check_frontmatter fm \<noteq> failure ''No YAML frontmatter found''"
  "check_frontmatter fm \<noteq> failure ''Invalid frontmatter format''"
  using message_check_frontmatter_not_parse_error[of fm] by (auto simp: failure_def)

lemma validate_content_invalid_iff:
  assumes "prefix ''---'' content"
  shows "validate_content content = failure ''Invalid frontmatter format''
           \<longleftrightarrow> match_frontmatter content = None"
  using assms
  by (simp add: validate_content_def check_frontmatter_not_parse_failure split: option.splits)

lemma validate_content_no_frontmatter_iff:
  "validate_content content = failure ''No YAML frontmatter found''
     \<longleftrightarrow> \<not> prefix ''---'' content"
  by (simp add: validate_content_def check_frontmatter_not_parse_failure split: option.splits)

lemma match_frontmatter_needs_newline:
  "\<not> prefix ''---\<newline>'' content \<Longrightarrow> match_frontmatter content = None"
  by (simp add: match_frontmatter_def)

section \<open>Facts about the rules of the specification\<close>

lemma prefix_iff_take: "prefix pat s \<longleftrightarrow> take (length pat) s = pat"
proof
  assume "prefix pat s"
  then show "take (length pat) s = pat" by (auto simp: prefix_def)
next
  assume "take (length pat) s = pat"
  then have "s = pat @ drop (length pat) s" by (metis append_take_drop_id)
  then show "prefix pat s" unfolding prefix_def by blast
qed

lemma prefix_iff_take_n: "length pat = n \<Longrightarrow> prefix pat s \<longleftrightarrow> take n s = pat"
  using prefix_iff_take[of pat s] by simp

lemma closing_positions_Nil [simp]: "closing_positions [] = []"
  by (simp add: closing_positions_def)

lemma closing_positions_Cons:
  "closing_positions (c # cs) =
     (if take 4 (c # cs) = ''\<newline>---'' then [0] else []) @ map Suc (closing_positions cs)"
proof -
  have "[0..<length (c # cs)] = 0 # map Suc [0..<length cs]"
    by (simp add: upt_conv_Cons map_Suc_upt del: upt_Suc)
  then show ?thesis
    by (simp add: closing_positions_def filter_map comp_def del: upt_Suc)
qed

lemma lazy_body_positions:
  "lazy_body s = (case closing_positions s of [] \<Rightarrow> None | i # later \<Rightarrow> Some (take i s))"
proof (induction s)
  case Nil
  then show ?case by simp
next
  case (Cons c cs)
  have p: "prefix ''\<newline>---'' (c # cs) \<longleftrightarrow> take 4 (c # cs) = ''\<newline>---''"
    by (rule prefix_iff_take_n) simp
  show ?case
  proof (cases "take 4 (c # cs) = ''\<newline>---''")
    case True
    with p show ?thesis by (simp add: closing_positions_Cons)
  next
    case False
    with p Cons.IH show ?thesis
      by (simp add: closing_positions_Cons split: list.splits)
  qed
qed

lemma header_block_match: "header_block content = match_frontmatter content"
proof -
  have "prefix ''---\<newline>'' content \<longleftrightarrow> take 4 content = ''---\<newline>''"
    by (rule prefix_iff_take_n) simp
  then show ?thesis
    by (simp add: header_block_def match_frontmatter_def lazy_body_positions)
qed

lemma prefix_dashes_iff_take: "prefix ''---'' content \<longleftrightarrow> take 3 content = ''---''"
  by (rule prefix_iff_take_n) simp

lemma nat_max_pred: "nat (max (int n - 1) 0) = n - 1"
  by (cases n) simp_all

lemma butlast_tl_slice: "v \<noteq> [] \<Longrightarrow> slice 1 (- 1) v = butlast (tl v)"
  by (cases v) (simp_all add: slice_def butlast_conv_take nat_max_pred)

lemma prefix_single: "prefix [q] v \<longleftrightarrow> v \<noteq> [] \<and> hd v = q"
  by (cases v) auto

lemma suffix_single: "suffix [q] v \<longleftrightarrow> v \<noteq> [] \<and> last v = q"
proof (cases v rule: rev_cases)
  case Nil
  then show ?thesis by simp
next
  case (snoc ys y)
  then show ?thesis by (auto simp: suffix_def)
qed

lemma strip_quotes_unquote: "strip_quotes v = unquote v"
proof (cases "v = []")
  case True
  then show ?thesis by (simp add: strip_quotes_def unquote_def)
next
  case False
  then show ?thesis
    by (auto simp: strip_quotes_def unquote_def prefix_single suffix_single butlast_tl_slice
        dquote_def squote_def)
qed

lemma split_at_colon:
  assumes "CHR '':'' \<in> set line"
  shows "line = takeWhile (\<lambda>c. c \<noteq> CHR '':'') line @ '':''
           @ drop 1 (dropWhile (\<lambda>c. c \<noteq> CHR '':'') line)"
proof -
  let ?d = "dropWhile (\<lambda>c. c \<noteq> CHR '':'') line"
  from assms have ne: "?d \<noteq> []" by (auto simp: dropWhile_eq_Nil_conv)
  then have "\<not> (hd ?d \<noteq> CHR '':'')" by (rule hd_dropWhile)
  with ne have "?d = CHR '':'' # drop 1 ?d" by (cases ?d) auto
  then have "takeWhile (\<lambda>c. c \<noteq> CHR '':'') line @ '':'' @ drop 1 ?d
      = takeWhile (\<lambda>c. c \<noteq> CHR '':'') line @ ?d"
    by simp
  then show ?thesis by simp
qed

lemma parse_line_header_field:
  "parse_line fm line =
     (case header_field line of None \<Rightarrow> fm | Some (k, v) \<Rightarrow> set_property fm k v)"
proof (cases "trim line = [] \<or> take 1 (trim line) = ''#'' \<or> CHR '':'' \<notin> set line")
  case True
  then have "header_field line = None" by (simp add: header_field_def)
  moreover from True have "trim line = [] \<or> prefix ''#'' (trim line) \<or> CHR '':'' \<notin> set line"
    using prefix_iff_take[of "''#''" "trim line"] by auto
  then have "parse_line fm line = fm" by (rule parse_line_skipped)
  ultimately show ?thesis by simp
next
  case False
  let ?k = "takeWhile (\<lambda>c. c \<noteq> CHR '':'') line"
  let ?v = "drop 1 (dropWhile (\<lambda>c. c \<noteq> CHR '':'') line)"
  from False have l: "line = ?k @ '':'' @ ?v" by (intro split_at_colon) simp
  have k: "CHR '':'' \<notin> set ?k" by (auto dest: set_takeWhileD)
  from False have "\<not> prefix ''#'' (trim line)"
    using prefix_iff_take[of "''#''" "trim line"] by auto
  with l have c: "\<not> prefix ''#'' (trim (?k @ '':'' @ ?v))" by simp
  have "parse_line fm (?k @ '':'' @ ?v) = set_property fm (trim ?k) (strip_quotes (trim ?v))"
    using k c by (rule parse_line_field)
  with l have "parse_line fm line = set_property fm (trim ?k) (unquote (trim ?v))"
    by (simp add: strip_quotes_unquote)
  moreover from False have "header_field line = Some (trim ?k, unquote (trim ?v))"
    by (simp add: header_field_def)
  ultimately show ?thesis by simp
qed

lemma keys_update: "set (map fst (AList.update k v flds)) = insert k (set (map fst flds))"
  using dom_update[of k v flds] by simp

lemma keys_store_field: "set (map fst flds) \<subseteq> set (map fst (store_field flds line))"
  by (auto simp: store_field_def keys_update simp del: set_map split: option.splits)

lemma keys_foldl_store_field:
  "set (map fst flds) \<subseteq> set (map fst (foldl store_field flds ls))"
proof (induction ls arbitrary: flds)
  case Nil
  then show ?case by simp
next
  case (Cons l ls)
  from keys_store_field[of flds l] Cons.IH[of "store_field flds l"] show ?case by auto
qed

lemma key_of_line_stored:
  assumes "l \<in> set ls" and "header_field l = Some (k, v)"
  shows "k \<in> set (map fst (foldl store_field flds ls))"
  using assms(1)
proof (induction ls arbitrary: flds)
  case Nil
  then show ?case by simp
next
  case (Cons x xs)
  show ?case
  proof (cases "l = x")
    case True
    with assms(2) have "k \<in> set (map fst (store_field flds x))"
      by (simp add: store_field_def keys_update del: set_map)
    with keys_foldl_store_field[of "store_field flds x" xs] show ?thesis by auto
  next
    case False
    with Cons.prems have "l \<in> set xs" by simp
    from Cons.IH[OF this, of "store_field flds x"] show ?thesis by simp
  qed
qed

lemma foldl_parse_line_store_field:
  assumes "\<And>l k v. l \<in> set ls \<Longrightarrow> header_field l = Some (k, v) \<Longrightarrow> k \<noteq> ''__proto__''"
  shows "foldl parse_line fm ls = foldl store_field fm ls"
  using assms
proof (induction ls arbitrary: fm)
  case Nil
  then show ?case by simp
next
  case (Cons x xs)
  have "parse_line fm x = store_field fm x"
  proof (cases "header_field x")
    case None
    then show ?thesis by (simp add: parse_line_header_field store_field_def)
  next
    case (Some kv)
    obtain k v where kv: "kv = (k, v)" by (cases kv)
    with Some Cons.prems[of x k v] have "k \<noteq> ''__proto__''" by simp
    with Some kv show ?thesis
      by (simp add: parse_line_header_field store_field_def set_property_def)
  qed
  moreover have "foldl parse_line (store_field fm x) xs = foldl store_field (store_field fm x) xs"
    by (rule Cons.IH) (use Cons.prems in auto)
  ultimately show ?case by simp
qed

lemma parse_frontmatter_header_fields:
  assumes "''__proto__'' \<notin> set (map fst (header_fields block))"
  shows "parse_frontmatter block = header_fields block"
proof -
  have "k \<noteq> ''__proto__''"
    if "l \<in> set (split_on CHR ''\<newline>'' block)" and "header_field l = Some (k, v)" for l k v
    using key_of_line_stored[OF that, of "[]"] assms unfolding header_fields_def by blast
  then show ?thesis
    unfolding parse_frontmatter_def header_fields_def
    by (intro foldl_parse_line_store_field) blast
qed

lemma includes_str_sublist: "includes_str s pat \<longleftrightarrow> sublist pat s"
  by (simp add: includes_str_iff sublist_def)

lemma includes_two_hyphens: "includes_str s ''--'' \<longleftrightarrow> sublist ''--'' s"
  by (rule includes_str_sublist)

lemma allowed_names_set: "set ALLOWED_PROPERTIES = allowed_names"
  by (auto simp: ALLOWED_PROPERTIES_def allowed_names_def)

lemmas header_rule_defs =
  allow_list_rule_def name_present_rule_def description_present_rule_def
  name_charset_rule_def name_hyphen_placement_rule_def name_length_rule_def
  description_angle_brackets_rule_def description_length_rule_def field_rule_def

lemma hyphen_case_plain:
  "hyphen_case name \<longleftrightarrow>
     name \<noteq> [] \<and> (\<forall>c \<in> set name. (CHR ''a'' \<le> c \<and> c \<le> CHR ''z'')
                        \<or> (CHR ''0'' \<le> c \<and> c \<le> CHR ''9'') \<or> c = CHR ''-'')"
  by (simp add: hyphen_case_def hyphen_case_char_def list_all_iff)

lemma check_fields_rules:
  assumes "hdr sys p = Some fm"
  shows "check_fields fm =
     (case first_violation
        [on_header hdr name_present_rule, on_header hdr description_present_rule,
         on_header hdr name_charset_rule, on_header hdr name_hyphen_placement_rule,
         on_header hdr name_length_rule, on_header hdr description_angle_brackets_rule,
         on_header hdr description_length_rule] sys p of
        None \<Rightarrow> success ''Skill is valid!'' | Some m \<Rightarrow> failure m)"
  using assms
  by (simp add: on_header_def header_rule_defs check_fields_def get_property_def msg_defs
      hyphen_case_plain includes_two_hyphens includes_str_single squote_def
      split: option.splits)

lemma check_frontmatter_rules:
  assumes "hdr sys p = Some fm" and "distinct (map fst fm)"
  shows "check_frontmatter fm =
     (case first_violation
        [on_header hdr allow_list_rule,
         on_header hdr name_present_rule, on_header hdr description_present_rule,
         on_header hdr name_charset_rule, on_header hdr name_hyphen_placement_rule,
         on_header hdr name_length_rule, on_header hdr description_angle_brackets_rule,
         on_header hdr description_length_rule] sys p of
        None \<Rightarrow> success ''Skill is valid!'' | Some m \<Rightarrow> failure m)"
proof (cases "set (map fst fm) \<subseteq> allowed_names")
  case True
  then have "on_header hdr allow_list_rule sys p = None"
    using assms(1) by (simp add: on_header_def allow_list_rule_def)
  moreover from True have "check_frontmatter fm = check_fields fm"
    by (intro check_frontmatter_allowed) (simp add: object_keys_def allowed_names_set)
  ultimately show ?thesis
    using check_fields_rules[of hdr sys p fm, OF assms(1)] by simp
next
  case False
  then have r: "on_header hdr allow_list_rule sys p =
      Some (''Unexpected key(s) in SKILL.md frontmatter: ''
             @ join_with '', '' (sorted_list_of_set (set (map fst fm) - allowed_names))
             @ ''. Allowed properties are: allowed-tools, description, license, metadata, name'')"
    using assms(1) by (simp add: on_header_def allow_list_rule_def)
  from False have "check_frontmatter fm =
      failure (msg_unexpected (filter (\<lambda>k. k \<notin> set ALLOWED_PROPERTIES) (object_keys fm)))"
    by (intro check_frontmatter_unexpected) (simp add: object_keys_def allowed_names_set)
  also have "msg_unexpected (filter (\<lambda>k. k \<notin> set ALLOWED_PROPERTIES) (object_keys fm)) =
      ''Unexpected key(s) in SKILL.md frontmatter: ''
             @ join_with '', '' (sorted_list_of_set (set (map fst fm) - allowed_names))
             @ ''. Allowed properties are: allowed-tools, description, license, metadata, name''"
    using sort_unexpected[OF assms(2), of "set ALLOWED_PROPERTIES"]
    by (simp add: msg_unexpected_def object_keys_def sorted_allowed allowed_names_set)
  finally show ?thesis using r by simp
qed

lemma manifest_text_Some:
  "manifest_text sys p = Some content \<longleftrightarrow>
     exists_sync sys (skillMdPath sys p) \<and> read_file sys (skillMdPath sys p) = Inr content"
  by (auto simp: manifest_text_def split: sum.splits)

lemma manifest_header_Some:
  "manifest_header sys p = Some flds \<longleftrightarrow>
     (\<exists>content t. manifest_text sys p = Some content \<and> header_block content = Some t
        \<and> flds = header_fields t)"
  by (auto simp: manifest_header_def split: option.splits)

lemma header_block_take3: "header_block content = Some t \<Longrightarrow> take 3 content = ''---''"
proof -
  assume "header_block content = Some t"
  then have "match_frontmatter content = Some t" by (simp add: header_block_match)
  then have "prefix ''---'' content" by (rule match_frontmatter_prefix)
  then show ?thesis by (simp add: prefix_dashes_iff_take)
qed

lemma validateSkill_manifest_header:
  assumes "manifest_header sys p = Some flds" and "''__proto__'' \<notin> set (map fst flds)"
  shows "fst (validateSkill sys p) = check_frontmatter flds" and "distinct (map fst flds)"
proof -
  from assms(1) obtain content t where c: "manifest_text sys p = Some content"
    and b: "header_block content = Some t" and f: "flds = header_fields t"
    unfolding manifest_header_Some by blast
  from assms(2) f have pf: "parse_frontmatter t = flds"
    by (simp add: parse_frontmatter_header_fields)
  from c have "fst (validateSkill sys p) = validate_content content"
    by (simp add: manifest_text_Some validateSkill_text)
  moreover from b have "match_frontmatter content = Some t" by (simp add: header_block_match)
  moreover from b have "prefix ''---'' content"
    using header_block_take3 by (simp add: prefix_dashes_iff_take)
  ultimately show "fst (validateSkill sys p) = check_frontmatter flds"
    using pf by (simp add: validate_content_def)
  from distinct_keys_parse_frontmatter[of t] pf show "distinct (map fst flds)"
    by (simp add: object_keys_def)
qed

lemma validateSkill_validation_rules:
  assumes "\<forall>flds. manifest_header sys p = Some flds \<longrightarrow> ''__proto__'' \<notin> set (map fst flds)"
  shows "fst (validateSkill sys p) =
     (case first_violation validation_rules sys p of
        None \<Rightarrow> success ''Skill is valid!'' | Some m \<Rightarrow> failure m)"
proof (cases "manifest_text sys p")
  case None
  then have h: "manifest_header sys p = None" by (simp add: manifest_header_def)
  show ?thesis
  proof (cases "exists_sync sys (skillMdPath sys p)")
    case False
    then show ?thesis
      by (simp add: validation_rules_def rule_manifest_exists_def validateSkill_def Let_def)
  next
    case True
    with None obtain e where "read_file sys (skillMdPath sys p) = Inl e"
      by (auto simp: manifest_text_def split: sum.splits)
    with True show ?thesis
      by (simp add: validation_rules_def rule_manifest_exists_def rule_manifest_readable_def
          validateSkill_def Let_def)
  qed
next
  case (Some content)
  then have e: "exists_sync sys (skillMdPath sys p)"
    and r: "read_file sys (skillMdPath sys p) = Inr content"
    by (simp_all add: manifest_text_Some)
  have v: "fst (validateSkill sys p) = validate_content content"
    using e r by (rule validateSkill_text)
  have r12: "rule_manifest_exists sys p = None" "rule_manifest_readable sys p = None"
    using e r by (simp_all add: rule_manifest_exists_def rule_manifest_readable_def)
  show ?thesis
  proof (cases "header_block content")
    case None
    then have h: "manifest_header sys p = None" using Some by (simp add: manifest_header_def)
    from None have m: "match_frontmatter content = None" by (simp add: header_block_match)
    show ?thesis
      unfolding v using Some None m r12
      by (simp add: validation_rules_def rule_header_parseable_def validate_content_def
          prefix_dashes_iff_take)
  next
    case (Some t)
    with \<open>manifest_text sys p = Some content\<close>
    have h: "manifest_header sys p = Some (header_fields t)" by (simp add: manifest_header_def)
    with assms have np: "''__proto__'' \<notin> set (map fst (header_fields t))" by blast
    note c = validateSkill_manifest_header[OF h np]
    from Some have "rule_header_parseable sys p = None"
      using \<open>manifest_text sys p = Some content\<close> header_block_take3[OF Some]
      by (simp add: rule_header_parseable_def)
    with r12 have "first_violation validation_rules sys p =
      first_violation
        [on_header manifest_header allow_list_rule,
         on_header manifest_header name_present_rule,
         on_header manifest_header description_present_rule,
         on_header manifest_header name_charset_rule,
         on_header manifest_header name_hyphen_placement_rule,
         on_header manifest_header name_length_rule,
         on_header manifest_header description_angle_brackets_rule,
         on_header manifest_header description_length_rule] sys p"
      by (simp add: validation_rules_def)
    with check_frontmatter_rules[of manifest_header sys p "header_fields t", OF h c(2)] c(1)
    show ?thesis by simp
  qed
qed

lemma validateSkill_unexpected_fields:
  assumes "manifest_header sys p = Some flds" and "''__proto__'' \<notin> set (map fst flds)"
    and "\<not> set (map fst flds) \<subseteq> allowed_names"
  shows "fst (validateSkill sys p) =
     failure (''Unexpected key(s) in SKILL.md frontmatter: ''
       @ join_with '', '' (sorted_list_of_set (set (map fst flds) - allowed_names))
       @ ''. Allowed properties are: allowed-tools, description, license, metadata, name'')"
proof -
  note c = validateSkill_manifest_header[OF assms(1,2)]
  have "on_header manifest_header allow_list_rule sys p =
      Some (''Unexpected key(s) in SKILL.md frontmatter: ''
       @ join_with '', '' (sorted_list_of_set (set (map fst flds) - allowed_names))
       @ ''. Allowed properties are: allowed-tools, description, license, metadata, name'')"
    using assms(1,3) by (simp add: on_header_def allow_list_rule_def)
  with check_frontmatter_rules[of manifest_header sys p flds, OF assms(1) c(2)] c(1)
  show ?thesis by simp
qed

section \<open>Facts about the packager\<close>

lemma validateSkill_events:
  "e \<in> set (snd (validateSkill sys p)) \<Longrightarrow> (\<exists>q. e = ExistsSync q) \<or> (\<exists>q. e = ReadFile q)"
  by (auto simp: validateSkill_def Let_def split: sum.splits if_splits)

lemma console_errors_validateSkill: "console_errors (snd (validateSkill sys p)) = []"
  by (simp add: validateSkill_def Let_def console_errors_def split: sum.splits)

lemma console_errors_append: "console_errors (xs @ ys) = console_errors xs @ console_errors ys"
  by (simp add: console_errors_def)

lemma create_archive_Returned:
  assumes "create_archive sys sp out = (Returned (Some f), evs)"
  shows "(\<forall>d. out = Some d \<and> d \<noteq> [] \<longrightarrow>
            f = path_join sys (path_resolve sys d) (path_basename sys sp @ ''.skill'')
            \<and> Mkdir (path_resolve sys d) \<in> set evs
            \<and> mkdir_recursive sys (path_resolve sys d) = None)
     \<and> (out = None \<or> out = Some [] \<longrightarrow>
            f = path_join sys (process_cwd sys) (path_basename sys sp @ ''.skill'')
            \<and> (\<forall>d. Mkdir d \<notin> set evs))
     \<and> Exec (zip_command (path_dirname sys sp) f (path_basename sys sp)) \<in> set evs"
  using assms
  by (auto simp: create_archive_def resolve_output_def invoke_archiver_def Let_def
      split: option.splits if_splits sum.splits prod.splits)

lemma packageSkill_Returned_Some:
  assumes "fst (packageSkill sys p out) = Returned (Some f)"
  shows "\<exists>evs pre. create_archive sys (path_resolve sys p) out = (Returned (Some f), evs)
           \<and> snd (packageSkill sys p out) = pre @ evs
           \<and> (\<forall>d. Mkdir d \<notin> set pre)"
proof -
  obtain r reads where v: "validateSkill sys (path_resolve sys p) = (r, reads)"
    by (cases "validateSkill sys (path_resolve sys p)")
  obtain res evs where c: "create_archive sys (path_resolve sys p) out = (res, evs)"
    by (cases "create_archive sys (path_resolve sys p) out")
  have nm: "\<And>d. Mkdir d \<notin> set reads"
    using validateSkill_events[of _ sys "path_resolve sys p"] v by auto
  from assms v c have ok: "exists_sync sys (path_resolve sys p)"
    "is_directory sys (path_resolve sys p)"
    "exists_sync sys (path_join sys (path_resolve sys p) ''SKILL.md'')" "valid r"
    by (auto simp: packageSkill_def Let_def split: if_splits)
  with assms v c have "res = Returned (Some f)"
    by (simp add: packageSkill_def Let_def)
  moreover from ok v c have "snd (packageSkill sys p out) =
      ([ExistsSync (path_resolve sys p), StatSync (path_resolve sys p),
        ExistsSync (path_join sys (path_resolve sys p) ''SKILL.md''),
        ConsoleLog (magnifier @ '' Validating skill...'')] @ reads
       @ [ConsoleLog (check_mark @ '' '' @ message r @ ''\<newline>'')]) @ evs"
    by (simp add: packageSkill_def Let_def)
  moreover have "\<forall>d. Mkdir d \<notin> set
      ([ExistsSync (path_resolve sys p), StatSync (path_resolve sys p),
        ExistsSync (path_join sys (path_resolve sys p) ''SKILL.md''),
        ConsoleLog (magnifier @ '' Validating skill...'')] @ reads
       @ [ConsoleLog (check_mark @ '' '' @ message r @ ''\<newline>'')])"
    using nm by simp
  ultimately show ?thesis using c by blast
qed

lemma create_archive_succeeded:
  assumes "create_archive sys sp out = (Returned (Some f), evs)"
  shows "exec sys (zip_command (path_dirname sys sp) f (path_basename sys sp)) = None"
  using assms
  by (auto simp: create_archive_def resolve_output_def invoke_archiver_def Let_def
      split: option.splits if_splits sum.splits prod.splits)

lemma packageSkill_returned_path:
  assumes "fst (packageSkill sys p out) = Returned (Some f)"
  shows "(\<forall>d. out = Some d \<and> d \<noteq> [] \<longrightarrow>
            f = path_join sys (path_resolve sys d)
                  (path_basename sys (path_resolve sys p) @ ''.skill'')
            \<and> Mkdir (path_resolve sys d) \<in> set (snd (packageSkill sys p out))
            \<and> mkdir_recursive sys (path_resolve sys d) = None)
     \<and> (out = None \<or> out = Some [] \<longrightarrow>
            f = path_join sys (process_cwd sys)
                  (path_basename sys (path_resolve sys p) @ ''.skill'')
            \<and> (\<forall>d. Mkdir d \<notin> set (snd (packageSkill sys p out))))
     \<and> Exec (''cd '' @ [CHR 0x22] @ path_dirname sys (path_resolve sys p) @ [CHR 0x22]
              @ '' && zip -r '' @ [CHR 0x22] @ f @ [CHR 0x22]
              @ '' '' @ [CHR 0x22] @ path_basename sys (path_resolve sys p) @ [CHR 0x22])
           \<in> set (snd (packageSkill sys p out))
     \<and> exec sys (''cd '' @ [CHR 0x22] @ path_dirname sys (path_resolve sys p) @ [CHR 0x22]
              @ '' && zip -r '' @ [CHR 0x22] @ f @ [CHR 0x22]
              @ '' '' @ [CHR 0x22] @ path_basename sys (path_resolve sys p) @ [CHR 0x22])
         = None"
proof -
  from packageSkill_Returned_Some[OF assms] obtain evs pre
    where c: "create_archive sys (path_resolve sys p) out = (Returned (Some f), evs)"
      and e: "snd (packageSkill sys p out) = pre @ evs"
      and m: "\<forall>d. Mkdir d \<notin> set pre"
    by blast
  have z: "zip_command (path_dirname sys (path_resolve sys p)) f
             (path_basename sys (path_resolve sys p))
      = ''cd '' @ [CHR 0x22] @ path_dirname sys (path_resolve sys p) @ [CHR 0x22]
              @ '' && zip -r '' @ [CHR 0x22] @ f @ [CHR 0x22]
              @ '' '' @ [CHR 0x22] @ path_basename sys (path_resolve sys p) @ [CHR 0x22]"
    by (simp add: zip_command_def dquote_def)
  from create_archive_Returned[OF c] create_archive_succeeded[OF c] m show ?thesis
    unfolding e z[symmetric] by auto
qed

section \<open>The claims\<close>

text \<open>
  C1, as amended. For every manifest whose parsed header contains only allow-listed field
  names, has a \<open>name\<close> field and has a \<open>description\<close> field that is not empty,
  \<open>validateSkill\<close> returns \<open>valid: true\<close> if and only if the name matches
  \<^verbatim>\<open>^[a-z0-9-]+$\<close>, does not start or end with a hyphen, contains no two consecutive
  hyphens, has length at most 64, and the description contains neither \<open><\<close> nor \<open>>\<close>
  and has length at most 1024.
\<close>

theorem validateSkill_valid_iff_constraints:
  assumes "parsed_header sys p = Some fm"
    and "set (object_keys fm) \<subseteq> set ALLOWED_PROPERTIES"
    and "get_property fm ''name'' = Some name"
    and "get_property fm ''description'' = Some description"
    and "description \<noteq> []"
  shows "valid (fst (validateSkill sys p)) \<longleftrightarrow>
     name \<noteq> [] \<and>
     set name \<subseteq> {CHR ''a''..CHR ''z''} \<union> {CHR ''0''..CHR ''9''} \<union> {CHR ''-''} \<and>
     \<not> prefix ''-'' name \<and> \<not> suffix ''-'' name \<and> \<not> (\<exists>u v. name = u @ ''--'' @ v) \<and>
     length name \<le> 64 \<and>
     CHR ''<'' \<notin> set description \<and> CHR ''>'' \<notin> set description \<and>
     length description \<le> 1024"
proof -
  have "fst (validateSkill sys p) = check_fields fm"
    using assms(1,2) by (simp add: validateSkill_header check_frontmatter_allowed)
  moreover have "includes_str name ''--'' \<longleftrightarrow> (\<exists>u v. name = u @ ''--'' @ v)"
    by (rule includes_str_iff)
  ultimately show ?thesis
    using assms(3,4,5)
    by (simp only: valid_check_fields includes_str_single hyphen_case_iff) auto
qed

text \<open>
  The theorem at the manifest of scenario A of the specification: the header is parsed, its
  hypotheses hold and the skill is valid.
\<close>

theorem validateSkill_valid_iff_constraints_witness:
  "parsed_header
     (sample_platform (Some (''---\<newline>name: my-skill\<newline>description: '' @ [dquote] @ ''Does X''
                              @ [dquote] @ ''\<newline>---'')))
     ''/skills/demo''
     = Some [(''name'', ''my-skill''), (''description'', ''Does X'')]
   \<and> valid (fst (validateSkill
        (sample_platform (Some (''---\<newline>name: my-skill\<newline>description: '' @ [dquote] @ ''Does X''
                                 @ [dquote] @ ''\<newline>---'')))
        ''/skills/demo''))"
proof -
  let ?sys = "sample_platform (Some (''---\<newline>name: my-skill\<newline>description: '' @ [dquote]
                 @ ''Does X'' @ [dquote] @ ''\<newline>---''))"
  let ?hdr = "[(''name'', ''my-skill''), (''description'', ''Does X'')]"
  have h: "parsed_header ?sys ''/skills/demo'' = Some ?hdr"
    by code_simp
  have k: "set (object_keys ?hdr) \<subseteq> set ALLOWED_PROPERTIES"
    by (simp add: object_keys_def ALLOWED_PROPERTIES_def)
  have n: "get_property ?hdr ''name'' = Some ''my-skill''"
    by (simp add: get_property_def)
  have d: "get_property ?hdr ''description'' = Some ''Does X''"
    by (simp add: get_property_def)
  have e: "''Does X'' \<noteq> []" by simp
  have nn: "\<not> (\<exists>u v. ''my-skill'' = u @ ''--'' @ v)"
    unfolding includes_str_iff[symmetric] by code_simp
  have cs: "set ''my-skill'' \<subseteq> {CHR ''a''..CHR ''z''} \<union> {CHR ''0''..CHR ''9''} \<union> {CHR ''-''}"
    by simp
  have ps: "\<not> prefix ''-'' ''my-skill''" "\<not> suffix ''-'' ''my-skill''"
    by code_simp+
  have "valid (fst (validateSkill ?sys ''/skills/demo''))"
    unfolding validateSkill_valid_iff_constraints[OF h k n d e]
    using nn cs ps by simp
  with h show ?thesis by (intro conjI)
qed

text \<open>
  The claim as first stated fails at a manifest whose \<open>description\<close> line has no value:
  the header has both fields and only allow-listed names, the name and the empty
  description meet every constraint, and the skill is not valid.
\<close>

theorem validateSkill_empty_description_counterexample:
  "parsed_header (sample_platform (Some ''---\<newline>name: a\<newline>description:\<newline>---'')) ''/skills/demo''
     = Some [(''name'', ''a''), (''description'', [])]
   \<and> set (object_keys [(''name'', ''a''), (''description'', [])]) \<subseteq> set ALLOWED_PROPERTIES
   \<and> \<not> valid (fst (validateSkill
          (sample_platform (Some ''---\<newline>name: a\<newline>description:\<newline>---'')) ''/skills/demo''))
   \<and> ''a'' \<noteq> []
   \<and> set ''a'' \<subseteq> {CHR ''a''..CHR ''z''} \<union> {CHR ''0''..CHR ''9''} \<union> {CHR ''-''}
   \<and> \<not> prefix ''-'' ''a'' \<and> \<not> suffix ''-'' ''a'' \<and> \<not> (\<exists>u v. ''a'' = u @ ''--'' @ v)
   \<and> length ''a'' \<le> 64
   \<and> CHR ''<'' \<notin> set ([] :: string) \<and> CHR ''>'' \<notin> set ([] :: string)
   \<and> length ([] :: string) \<le> 1024"
proof -
  have h: "parsed_header (sample_platform (Some ''---\<newline>name: a\<newline>description:\<newline>---''))
      ''/skills/demo'' = Some [(''name'', ''a''), (''description'', [])]"
    by code_simp
  have v: "\<not> valid (fst (validateSkill
          (sample_platform (Some ''---\<newline>name: a\<newline>description:\<newline>---'')) ''/skills/demo''))"
    by code_simp
  have nn: "\<not> (\<exists>u v. ''a'' = u @ ''--'' @ v)"
    unfolding includes_str_iff[symmetric] by code_simp
  have k: "set (object_keys [(''name'', ''a''), (''description'', [])]) \<subseteq> set ALLOWED_PROPERTIES"
    by (simp add: object_keys_def ALLOWED_PROPERTIES_def)
  have ps: "\<not> prefix ''-'' ''a''" "\<not> suffix ''-'' ''a''"
    by code_simp+
  from h v nn k ps show ?thesis by simp
qed

text \<open>
  C2, as amended. For every skill directory on which \<open>validateSkill\<close> returns
  \<open>valid: false\<close>, \<open>packageSkill\<close> returns \<open>null\<close> and calls neither \<open>mkdir\<close> nor the
  archiver. When the directory holds a \<open>SKILL.md\<close> it reports that validation result's
  message behind the prefix \<open>Validation failed:\<close>; when \<open>SKILL.md\<close> is absent it stops
  one step earlier and reports its own error, \<open>SKILL.md not found in\<close> and the path.
\<close>

theorem packageSkill_stops_on_invalid_skill:
  assumes "\<not> valid (fst (validateSkill sys (path_resolve sys p)))"
  shows "fst (packageSkill sys p out) = Returned None
     \<and> (\<forall>e \<in> set (snd (packageSkill sys p out)). (\<forall>d. e \<noteq> Mkdir d) \<and> (\<forall>c. e \<noteq> Exec c))
     \<and> (exists_sync sys (path_resolve sys p) \<and> is_directory sys (path_resolve sys p)
          \<longrightarrow> console_errors (snd (packageSkill sys p out)) =
              (if exists_sync sys (path_join sys (path_resolve sys p) ''SKILL.md'')
               then [cross_mark @ '' Validation failed: ''
                       @ message (fst (validateSkill sys (path_resolve sys p))),
                     ''   Please fix the validation errors before packaging.'']
               else [cross_mark @ '' Error: SKILL.md not found in '' @ path_resolve sys p]))"
proof -
  obtain r evs where v: "validateSkill sys (path_resolve sys p) = (r, evs)"
    by (cases "validateSkill sys (path_resolve sys p)")
  with assms have nv: "\<not> valid r" by simp
  from v have ev: "\<And>e. e \<in> set evs \<Longrightarrow> (\<forall>d. e \<noteq> Mkdir d) \<and> (\<forall>c. e \<noteq> Exec c)"
    using validateSkill_events[of _ sys "path_resolve sys p"] by auto
  from v have ce: "console_errors evs = []"
    using console_errors_validateSkill[of sys "path_resolve sys p"] by simp
  have a: "fst (packageSkill sys p out) = Returned None"
    using v nv by (simp add: packageSkill_def Let_def)
  have b: "\<forall>e \<in> set (snd (packageSkill sys p out)). (\<forall>d. e \<noteq> Mkdir d) \<and> (\<forall>c. e \<noteq> Exec c)"
  proof
    fix e assume "e \<in> set (snd (packageSkill sys p out))"
    then show "(\<forall>d. e \<noteq> Mkdir d) \<and> (\<forall>c. e \<noteq> Exec c)"
      using v nv ev by (auto simp: packageSkill_def Let_def split: if_splits)
  qed
  have c: "exists_sync sys (path_resolve sys p) \<and> is_directory sys (path_resolve sys p)
          \<longrightarrow> console_errors (snd (packageSkill sys p out)) =
              (if exists_sync sys (path_join sys (path_resolve sys p) ''SKILL.md'')
               then [cross_mark @ '' Validation failed: ''
                       @ message (fst (validateSkill sys (path_resolve sys p))),
                     ''   Please fix the validation errors before packaging.'']
               else [cross_mark @ '' Error: SKILL.md not found in '' @ path_resolve sys p])"
  proof
    assume "exists_sync sys (path_resolve sys p) \<and> is_directory sys (path_resolve sys p)"
    then show "console_errors (snd (packageSkill sys p out)) =
              (if exists_sync sys (path_join sys (path_resolve sys p) ''SKILL.md'')
               then [cross_mark @ '' Validation failed: ''
                       @ message (fst (validateSkill sys (path_resolve sys p))),
                     ''   Please fix the validation errors before packaging.'']
               else [cross_mark @ '' Error: SKILL.md not found in '' @ path_resolve sys p])"
      using v nv ce by (simp add: packageSkill_def Let_def console_errors_append)
        (simp add: console_errors_def)
  qed
  from a b c show ?thesis by (intro conjI)
qed

text \<open>
  The theorem at a skill whose name is not hyphen-case, with an output directory given:
  nothing is packaged and the validator's message is reported behind the prefix.
\<close>

theorem packageSkill_stops_on_invalid_skill_witness:
  "\<not> valid (fst (validateSkill
        (sample_platform (Some ''---\<newline>name: My_Skill\<newline>description: x\<newline>---''))
        (path_resolve (sample_platform (Some ''---\<newline>name: My_Skill\<newline>description: x\<newline>---''))
           ''/skills/demo'')))
   \<and> fst (packageSkill
        (sample_platform (Some ''---\<newline>name: My_Skill\<newline>description: x\<newline>---''))
        ''/skills/demo'' (Some ''dist'')) = Returned None
   \<and> console_errors (snd (packageSkill
        (sample_platform (Some ''---\<newline>name: My_Skill\<newline>description: x\<newline>---''))
        ''/skills/demo'' (Some ''dist'')))
       = [cross_mark @ '' Validation failed: '' @ msg_not_hyphen_case ''My_Skill'',
          ''   Please fix the validation errors before packaging.'']"
proof -
  let ?sys = "sample_platform (Some ''---\<newline>name: My_Skill\<newline>description: x\<newline>---'')"
  have r: "path_resolve ?sys ''/skills/demo'' = ''/skills/demo''"
    by code_simp
  have m: "fst (validateSkill ?sys ''/skills/demo'') = failure (msg_not_hyphen_case ''My_Skill'')"
    by code_simp
  then have h: "\<not> valid (fst (validateSkill ?sys (path_resolve ?sys ''/skills/demo'')))"
    by (simp only: r valid_failure) simp
  have e: "exists_sync ?sys (path_resolve ?sys ''/skills/demo'')
      \<and> is_directory ?sys (path_resolve ?sys ''/skills/demo'')"
    by code_simp
  have f: "exists_sync ?sys (path_join ?sys (path_resolve ?sys ''/skills/demo'') ''SKILL.md'')"
    by code_simp
  from packageSkill_stops_on_invalid_skill[OF h, of "Some ''dist''"] e f m r h
  show ?thesis by simp
qed

text \<open>
  The claim as first stated fails at a skill directory without \<open>SKILL.md\<close>:
  \<open>validateSkill\<close> returns \<open>valid: false\<close> with \<open>SKILL.md not found\<close>, and \<open>packageSkill\<close>
  reports its own line, not that message behind the validation prefix.
\<close>

theorem packageSkill_missing_manifest_counterexample:
  "is_directory (sample_platform None) ''/skills/demo''
   \<and> validateSkill (sample_platform None) ''/skills/demo''
       = (failure ''SKILL.md not found'', [ExistsSync ''/skills/demo/SKILL.md''])
   \<and> packageSkill (sample_platform None) ''/skills/demo'' None
       = (Returned None,
          [ExistsSync ''/skills/demo'', StatSync ''/skills/demo'',
           ExistsSync ''/skills/demo/SKILL.md'',
           ConsoleError (cross_mark @ '' Error: SKILL.md not found in /skills/demo'')])
   \<and> cross_mark @ '' Validation failed: SKILL.md not found''
       \<notin> set (console_errors (snd (packageSkill (sample_platform None) ''/skills/demo'' None)))"
  by code_simp

text \<open>
  C3, as amended. For every manifest text that begins with the three delimiter
  characters, validation fails with \<open>Invalid frontmatter format\<close> if and only if the text
  is not the delimiter and a newline, a block, and a newline followed by the three
  delimiter characters again, with anything after them. When it has that shape, the
  header block parsed is the shortest such block: the text between the opening delimiter
  line and the first later newline that the three delimiter characters follow, whether or
  not they are a whole line.
\<close>

theorem invalid_frontmatter_iff_no_closing_dashes:
  assumes "exists_sync sys (skillMdPath sys p)"
    and "read_file sys (skillMdPath sys p) = Inr content"
    and "prefix ''---'' content"
  shows "(fst (validateSkill sys p) = failure ''Invalid frontmatter format''
            \<longleftrightarrow> \<not> (\<exists>b r. content = ''---\<newline>'' @ b @ ''\<newline>---'' @ r))
       \<and> (message (fst (validateSkill sys p)) = ''Invalid frontmatter format''
            \<longleftrightarrow> \<not> (\<exists>b r. content = ''---\<newline>'' @ b @ ''\<newline>---'' @ r))
       \<and> (\<forall>b. match_frontmatter content = Some b
              \<longleftrightarrow> (\<exists>r. content = ''---\<newline>'' @ b @ ''\<newline>---'' @ r)
                  \<and> (\<forall>b' r'. content = ''---\<newline>'' @ b' @ ''\<newline>---'' @ r'
                        \<longrightarrow> length b \<le> length b'))
       \<and> (\<forall>b. match_frontmatter content = Some b
              \<longrightarrow> fst (validateSkill sys p) = check_frontmatter (parse_frontmatter b))"
proof -
  have r: "fst (validateSkill sys p) = validate_content content"
    using assms(1,2) by (rule validateSkill_text)
  have a: "message (validate_content content) = ''Invalid frontmatter format''
            \<longleftrightarrow> match_frontmatter content = None"
    using assms(3)
    by (simp add: validate_content_def message_check_frontmatter_not_parse_error
        split: option.splits)
  have b: "match_frontmatter content = Some b
              \<longleftrightarrow> (\<exists>r. content = ''---\<newline>'' @ b @ ''\<newline>---'' @ r)
                  \<and> (\<forall>b' r'. content = ''---\<newline>'' @ b' @ ''\<newline>---'' @ r'
                        \<longrightarrow> length b \<le> length b')" for b
  proof
    assume m: "match_frontmatter content = Some b"
    have "length b \<le> length b'" if "content = ''---\<newline>'' @ b' @ ''\<newline>---'' @ r'" for b' r'
      using match_frontmatter_first[OF that] m by simp
    with match_frontmatter_Some[OF m]
    show "(\<exists>r. content = ''---\<newline>'' @ b @ ''\<newline>---'' @ r)
            \<and> (\<forall>b' r'. content = ''---\<newline>'' @ b' @ ''\<newline>---'' @ r' \<longrightarrow> length b \<le> length b')"
      by blast
  next
    assume h: "(\<exists>r. content = ''---\<newline>'' @ b @ ''\<newline>---'' @ r)
            \<and> (\<forall>b' r'. content = ''---\<newline>'' @ b' @ ''\<newline>---'' @ r' \<longrightarrow> length b \<le> length b')"
    then obtain r where c: "content = ''---\<newline>'' @ b @ ''\<newline>---'' @ r" by blast
    from h show "match_frontmatter content = Some b"
      by (intro match_frontmatter_shortest[OF c]) blast
  qed
  have c: "fst (validateSkill sys p) = check_frontmatter (parse_frontmatter b)"
    if "match_frontmatter content = Some b" for b
    unfolding r using that assms(3) by (simp add: validate_content_def)
  have f: "fst (validateSkill sys p) = failure ''Invalid frontmatter format''
            \<longleftrightarrow> \<not> (\<exists>b r. content = ''---\<newline>'' @ b @ ''\<newline>---'' @ r)"
    unfolding r validate_content_invalid_iff[OF assms(3)] by (rule match_frontmatter_None_iff)
  have a': "message (fst (validateSkill sys p)) = ''Invalid frontmatter format''
            \<longleftrightarrow> \<not> (\<exists>b r. content = ''---\<newline>'' @ b @ ''\<newline>---'' @ r)"
    unfolding r a by (rule match_frontmatter_None_iff)
  from f a' b c show ?thesis by (intro conjI allI impI)
qed

text \<open>
  The theorem at a manifest whose header is closed by a line that only starts with the
  delimiter: the block before that line is the header parsed. And at a manifest with no
  closing delimiter: validation fails.
\<close>

theorem invalid_frontmatter_iff_no_closing_dashes_witness:
  "exists_sync (sample_platform (Some ''---\<newline>name: a\<newline>description: b\<newline>--- end''))
     (skillMdPath (sample_platform (Some ''---\<newline>name: a\<newline>description: b\<newline>--- end''))
        ''/skills/demo'')
   \<and> read_file (sample_platform (Some ''---\<newline>name: a\<newline>description: b\<newline>--- end''))
       (skillMdPath (sample_platform (Some ''---\<newline>name: a\<newline>description: b\<newline>--- end''))
          ''/skills/demo'')
       = Inr ''---\<newline>name: a\<newline>description: b\<newline>--- end''
   \<and> prefix ''---'' ''---\<newline>name: a\<newline>description: b\<newline>--- end''
   \<and> match_frontmatter ''---\<newline>name: a\<newline>description: b\<newline>--- end''
       = Some ''name: a\<newline>description: b''
   \<and> message (fst (validateSkill
         (sample_platform (Some ''---\<newline>name: a\<newline>description: b\<newline>--- end''))
         ''/skills/demo'')) \<noteq> ''Invalid frontmatter format''
   \<and> fst (validateSkill
         (sample_platform (Some ''---\<newline>name: a\<newline>description: b\<newline>--- end''))
         ''/skills/demo'')
       = check_frontmatter (parse_frontmatter ''name: a\<newline>description: b'')
   \<and> read_file (sample_platform (Some ''---\<newline>name: a''))
       (skillMdPath (sample_platform (Some ''---\<newline>name: a'')) ''/skills/demo'')
       = Inr ''---\<newline>name: a''
   \<and> match_frontmatter ''---\<newline>name: a'' = None
   \<and> fst (validateSkill (sample_platform (Some ''---\<newline>name: a'')) ''/skills/demo'')
       = failure ''Invalid frontmatter format''"
proof -
  let ?c = "''---\<newline>name: a\<newline>description: b\<newline>--- end''"
  let ?sys = "sample_platform (Some ?c)"
  have e: "exists_sync ?sys (skillMdPath ?sys ''/skills/demo'')" by code_simp
  have r: "read_file ?sys (skillMdPath ?sys ''/skills/demo'') = Inr ?c" by code_simp
  have p: "prefix ''---'' ?c" by code_simp
  have m: "match_frontmatter ?c = Some ''name: a\<newline>description: b''" by code_simp
  note t = invalid_frontmatter_iff_no_closing_dashes[OF e r p]
  from t m have d: "\<exists>r. ?c = ''---\<newline>'' @ ''name: a\<newline>description: b'' @ ''\<newline>---'' @ r"
    by blast
  then have "\<exists>b r. ?c = ''---\<newline>'' @ b @ ''\<newline>---'' @ r" by blast
  with t have n: "message (fst (validateSkill ?sys ''/skills/demo'')) \<noteq> ''Invalid frontmatter format''"
    by blast
  from t m have v: "fst (validateSkill ?sys ''/skills/demo'')
       = check_frontmatter (parse_frontmatter ''name: a\<newline>description: b'')"
    by blast
  let ?c2 = "''---\<newline>name: a''"
  let ?s2 = "sample_platform (Some ?c2)"
  have e2: "exists_sync ?s2 (skillMdPath ?s2 ''/skills/demo'')" by code_simp
  have r2: "read_file ?s2 (skillMdPath ?s2 ''/skills/demo'') = Inr ?c2" by code_simp
  have p2: "prefix ''---'' ?c2" by code_simp
  have m2: "match_frontmatter ?c2 = None" by code_simp
  have n2: "\<not> (\<exists>b r. ?c2 = ''---\<newline>'' @ b @ ''\<newline>---'' @ r)"
    using m2 match_frontmatter_None_iff[of ?c2] by blast
  from invalid_frontmatter_iff_no_closing_dashes[OF e2 r2 p2] n2
  have v2: "fst (validateSkill ?s2 ''/skills/demo'') = failure ''Invalid frontmatter format''"
    by blast
  from e r p m n v r2 m2 v2 show ?thesis by (intro conjI)
qed

text \<open>
  The claim as first stated fails in both directions. The first manifest has no line after
  the opening one that is exactly the delimiter, and is valid; the second has such a line
  right after the opening one, and fails with \<open>Invalid frontmatter format\<close>.
\<close>

theorem closing_delimiter_line_counterexample:
  "hd (split_on CHR ''\<newline>'' ''---\<newline>name: a\<newline>description: b\<newline>--- end'') = ''---''
   \<and> ''---'' \<notin> set (tl (split_on CHR ''\<newline>'' ''---\<newline>name: a\<newline>description: b\<newline>--- end''))
   \<and> fst (validateSkill
         (sample_platform (Some ''---\<newline>name: a\<newline>description: b\<newline>--- end''))
         ''/skills/demo'') = success ''Skill is valid!''
   \<and> hd (split_on CHR ''\<newline>'' ''---\<newline>---'') = ''---''
   \<and> ''---'' \<in> set (tl (split_on CHR ''\<newline>'' ''---\<newline>---''))
   \<and> fst (validateSkill (sample_platform (Some ''---\<newline>---'')) ''/skills/demo'')
       = failure ''Invalid frontmatter format''"
  by code_simp

text \<open>
  C4, as amended. \<open>validateSkill\<close> returns the message \<open>Missing 'name' in frontmatter\<close>
  exactly when the manifest has a parsed header with only allow-listed field names in
  which the \<open>name\<close> field is absent or has the empty string as its value; a \<open>name\<close> that
  is present and not empty passes rule 5. The analogous statement holds for
  \<open>description\<close> and \<open>Missing 'description' in frontmatter\<close>, once the name has passed.
\<close>

theorem missing_field_iff_absent_or_empty:
  "(message (fst (validateSkill sys p)) = msg_missing_name \<longleftrightarrow>
      (\<exists>fm. parsed_header sys p = Some fm \<and> set (object_keys fm) \<subseteq> set ALLOWED_PROPERTIES \<and>
         (get_property fm ''name'' = None \<or> get_property fm ''name'' = Some [])))
   \<and> (message (fst (validateSkill sys p)) = msg_missing_description \<longleftrightarrow>
      (\<exists>fm name. parsed_header sys p = Some fm \<and> set (object_keys fm) \<subseteq> set ALLOWED_PROPERTIES \<and>
         get_property fm ''name'' = Some name \<and> name \<noteq> [] \<and>
         (get_property fm ''description'' = None \<or> get_property fm ''description'' = Some [])))"
proof (cases "parsed_header sys p")
  case None
  from message_no_header[OF None]
  have "message (fst (validateSkill sys p)) \<noteq> msg_missing_name"
    and "message (fst (validateSkill sys p)) \<noteq> msg_missing_description"
    by (auto simp: msg_defs)
  with None show ?thesis by simp
next
  case (Some fm)
  show ?thesis
  proof (cases "set (object_keys fm) \<subseteq> set ALLOWED_PROPERTIES")
    case True
    with Some have "fst (validateSkill sys p) = check_fields fm"
      by (simp add: validateSkill_header check_frontmatter_allowed)
    with Some True show ?thesis
      by (simp add: check_fields_missing_name check_fields_missing_description) blast
  next
    case False
    with Some have "message (fst (validateSkill sys p))
        = msg_unexpected (filter (\<lambda>k. k \<notin> set ALLOWED_PROPERTIES) (object_keys fm))"
      by (simp add: validateSkill_header check_frontmatter_unexpected)
    with Some False show ?thesis
      by (simp add: message_unexpected_not_missing)
  qed
qed

text \<open>
  The theorem at a header without \<open>name\<close>, and at a header with a name and without
  \<open>description\<close>.
\<close>

theorem missing_field_iff_absent_or_empty_witness:
  "parsed_header (sample_platform (Some ''---\<newline>description: x\<newline>---'')) ''/skills/demo''
     = Some [(''description'', ''x'')]
   \<and> message (fst (validateSkill (sample_platform (Some ''---\<newline>description: x\<newline>---''))
         ''/skills/demo'')) = msg_missing_name
   \<and> parsed_header (sample_platform (Some ''---\<newline>name: a\<newline>license: MIT\<newline>---'')) ''/skills/demo''
     = Some [(''name'', ''a''), (''license'', ''MIT'')]
   \<and> message (fst (validateSkill (sample_platform (Some ''---\<newline>name: a\<newline>license: MIT\<newline>---''))
         ''/skills/demo'')) = msg_missing_description"
proof -
  let ?s1 = "sample_platform (Some ''---\<newline>description: x\<newline>---'')"
  let ?s2 = "sample_platform (Some ''---\<newline>name: a\<newline>license: MIT\<newline>---'')"
  have h1: "parsed_header ?s1 ''/skills/demo'' = Some [(''description'', ''x'')]"
    by code_simp
  have k1: "set (object_keys [(''description'', ''x'')]) \<subseteq> set ALLOWED_PROPERTIES"
    by (simp add: object_keys_def ALLOWED_PROPERTIES_def)
  have n1: "get_property [(''description'', ''x'')] ''name'' = None"
    by (simp add: get_property_def)
  have h2: "parsed_header ?s2 ''/skills/demo'' = Some [(''name'', ''a''), (''license'', ''MIT'')]"
    by code_simp
  have k2: "set (object_keys [(''name'', ''a''), (''license'', ''MIT'')]) \<subseteq> set ALLOWED_PROPERTIES"
    by (simp add: object_keys_def ALLOWED_PROPERTIES_def)
  have n2: "get_property [(''name'', ''a''), (''license'', ''MIT'')] ''name'' = Some ''a''"
    by (simp add: get_property_def)
  have d2: "get_property [(''name'', ''a''), (''license'', ''MIT'')] ''description'' = None"
    by (simp add: get_property_def)
  have a: "message (fst (validateSkill ?s1 ''/skills/demo'')) = msg_missing_name"
    using missing_field_iff_absent_or_empty[of ?s1 "''/skills/demo''"] h1 k1 n1 by blast
  have "\<exists>fm name. parsed_header ?s2 ''/skills/demo'' = Some fm
          \<and> set (object_keys fm) \<subseteq> set ALLOWED_PROPERTIES
          \<and> get_property fm ''name'' = Some name \<and> name \<noteq> []
          \<and> (get_property fm ''description'' = None \<or> get_property fm ''description'' = Some [])"
    using h2 k2 n2 d2 by (intro exI[of _ "[(''name'', ''a''), (''license'', ''MIT'')]"] exI[of _ "''a''"]) simp
  then have b: "message (fst (validateSkill ?s2 ''/skills/demo'')) = msg_missing_description"
    using missing_field_iff_absent_or_empty[of ?s2 "''/skills/demo''"] by blast
  from h1 a h2 b show ?thesis by (intro conjI)
qed

text \<open>
  The claim as first stated fails at a header whose \<open>name\<close> line has no value: the parsed
  header has the field, and the result is the missing-name message.
\<close>

theorem empty_name_counterexample:
  "parsed_header (sample_platform (Some ''---\<newline>name:\<newline>description: x\<newline>---'')) ''/skills/demo''
     = Some [(''name'', []), (''description'', ''x'')]
   \<and> get_property [(''name'', []), (''description'', ''x'')] ''name'' = Some []
   \<and> fst (validateSkill (sample_platform (Some ''---\<newline>name:\<newline>description: x\<newline>---''))
         ''/skills/demo'') = failure msg_missing_name"
  by code_simp

text \<open>
  C5, as amended. For every manifest text that does not start with the three characters
  of the header delimiter, validation fails with the message \<open>No YAML frontmatter found\<close>,
  and this failure occurs for no text that starts with those three characters: in
  particular for none whose first line is exactly the delimiter. A text that starts with
  the three characters followed by anything but a newline fails with
  \<open>Invalid frontmatter format\<close>.
\<close>

theorem no_frontmatter_iff_not_starting_with_dashes:
  assumes "exists_sync sys (skillMdPath sys p)"
    and "read_file sys (skillMdPath sys p) = Inr content"
  shows "(fst (validateSkill sys p) = failure ''No YAML frontmatter found''
            \<longleftrightarrow> \<not> prefix ''---'' content)
       \<and> (message (fst (validateSkill sys p)) = ''No YAML frontmatter found''
            \<longleftrightarrow> \<not> prefix ''---'' content)
       \<and> (hd (split_on CHR ''\<newline>'' content) = ''---''
            \<longrightarrow> message (fst (validateSkill sys p)) \<noteq> ''No YAML frontmatter found'')
       \<and> (prefix ''---'' content \<and> \<not> prefix ''---\<newline>'' content
            \<longrightarrow> fst (validateSkill sys p) = failure ''Invalid frontmatter format'')"
proof -
  have r: "fst (validateSkill sys p) = validate_content content"
    using assms by (rule validateSkill_text)
  have f: "validate_content content = failure ''No YAML frontmatter found''
            \<longleftrightarrow> \<not> prefix ''---'' content"
    by (rule validate_content_no_frontmatter_iff)
  have a: "message (validate_content content) = ''No YAML frontmatter found''
            \<longleftrightarrow> \<not> prefix ''---'' content"
    by (auto simp: validate_content_def message_check_frontmatter_not_parse_error
        split: option.splits)
  have c: "hd (split_on CHR ''\<newline>'' content) = ''---'' \<Longrightarrow> prefix ''---'' content"
    using prefix_hd_split_on[of "CHR ''\<newline>''" content] by simp
  have d: "validate_content content = failure ''Invalid frontmatter format''"
    if h: "prefix ''---'' content \<and> \<not> prefix ''---\<newline>'' content"
  proof -
    from h have p3: "prefix ''---'' content" and n4: "\<not> prefix ''---\<newline>'' content"
      by (rule conjunct1, rule conjunct2)
    from match_frontmatter_needs_newline[OF n4] validate_content_invalid_iff[OF p3]
    show ?thesis by (simp only:)
  qed
  from f a c d show ?thesis unfolding r by blast
qed

text \<open>
  The theorem at a manifest that starts with a field line, at one that starts with the
  three characters and a space, and at one whose first line is the delimiter.
\<close>

theorem no_frontmatter_iff_not_starting_with_dashes_witness:
  "exists_sync (sample_platform (Some ''name: a\<newline>---''))
     (skillMdPath (sample_platform (Some ''name: a\<newline>---'')) ''/skills/demo'')
   \<and> read_file (sample_platform (Some ''name: a\<newline>---''))
       (skillMdPath (sample_platform (Some ''name: a\<newline>---'')) ''/skills/demo'')
       = Inr ''name: a\<newline>---''
   \<and> \<not> prefix ''---'' ''name: a\<newline>---''
   \<and> fst (validateSkill (sample_platform (Some ''name: a\<newline>---'')) ''/skills/demo'')
       = failure ''No YAML frontmatter found''
   \<and> read_file (sample_platform (Some ''--- name: a''))
       (skillMdPath (sample_platform (Some ''--- name: a'')) ''/skills/demo'')
       = Inr ''--- name: a''
   \<and> prefix ''---'' ''--- name: a'' \<and> \<not> prefix ''---\<newline>'' ''--- name: a''
   \<and> fst (validateSkill (sample_platform (Some ''--- name: a'')) ''/skills/demo'')
       = failure ''Invalid frontmatter format''
   \<and> read_file (sample_platform (Some ''---\<newline>name: a\<newline>---''))
       (skillMdPath (sample_platform (Some ''---\<newline>name: a\<newline>---'')) ''/skills/demo'')
       = Inr ''---\<newline>name: a\<newline>---''
   \<and> hd (split_on CHR ''\<newline>'' ''---\<newline>name: a\<newline>---'') = ''---''
   \<and> message (fst (validateSkill (sample_platform (Some ''---\<newline>name: a\<newline>---''))
         ''/skills/demo'')) \<noteq> ''No YAML frontmatter found''"
proof -
  let ?c1 = "''name: a\<newline>---''"
  let ?s1 = "sample_platform (Some ?c1)"
  let ?c2 = "''--- name: a''"
  let ?s2 = "sample_platform (Some ?c2)"
  let ?c3 = "''---\<newline>name: a\<newline>---''"
  let ?s3 = "sample_platform (Some ?c3)"
  have e1: "exists_sync ?s1 (skillMdPath ?s1 ''/skills/demo'')" by code_simp
  have r1: "read_file ?s1 (skillMdPath ?s1 ''/skills/demo'') = Inr ?c1" by code_simp
  have p1: "\<not> prefix ''---'' ?c1" by code_simp
  from no_frontmatter_iff_not_starting_with_dashes[OF e1 r1] p1
  have v1: "fst (validateSkill ?s1 ''/skills/demo'') = failure ''No YAML frontmatter found''"
    by blast
  have e2: "exists_sync ?s2 (skillMdPath ?s2 ''/skills/demo'')" by code_simp
  have r2: "read_file ?s2 (skillMdPath ?s2 ''/skills/demo'') = Inr ?c2" by code_simp
  have p2: "prefix ''---'' ?c2" "\<not> prefix ''---\<newline>'' ?c2" by code_simp+
  from no_frontmatter_iff_not_starting_with_dashes[OF e2 r2] p2
  have v2: "fst (validateSkill ?s2 ''/skills/demo'') = failure ''Invalid frontmatter format''"
    by blast
  have e3: "exists_sync ?s3 (skillMdPath ?s3 ''/skills/demo'')" by code_simp
  have r3: "read_file ?s3 (skillMdPath ?s3 ''/skills/demo'') = Inr ?c3" by code_simp
  have p3: "hd (split_on CHR ''\<newline>'' ?c3) = ''---''" by code_simp
  from no_frontmatter_iff_not_starting_with_dashes[OF e3 r3] p3
  have v3: "message (fst (validateSkill ?s3 ''/skills/demo'')) \<noteq> ''No YAML frontmatter found''"
    by blast
  from e1 r1 p1 v1 r2 p2 v2 r3 p3 v3 show ?thesis by (intro conjI)
qed

text \<open>
  The claim as first stated fails at a text that starts with the three delimiter
  characters followed by more on the same line: its first line is not the delimiter, and
  the message is \<open>Invalid frontmatter format\<close>.
\<close>

theorem dashes_without_newline_counterexample:
  "hd (split_on CHR ''\<newline>'' ''---x'') \<noteq> ''---''
   \<and> fst (validateSkill (sample_platform (Some ''---x'')) ''/skills/demo'')
       = failure ''Invalid frontmatter format''
   \<and> message (fst (validateSkill (sample_platform (Some ''---x'')) ''/skills/demo''))
       \<noteq> ''No YAML frontmatter found''"
  by code_simp

text \<open>
  C6. The parser builds the mapping line by line: blank lines and comment lines are
  skipped, lines without a colon are ignored, every other line gives a trimmed key and a
  trimmed value split at the first colon, quotes that wrap a value are stripped, and the
  last occurrence of a key wins (\<open>parse_line_skipped\<close>, \<open>parse_line_field\<close>,
  \<open>get_property_set_property\<close>). One key escapes: a line with the key \<open>__proto__\<close>
  stores nothing, since the object is a plain \<open>{}\<close>. Evaluated here: the header block
  \<open>__proto__: x\<close> parses to the empty object while \<open>proto: x\<close> gives one field, and a
  manifest with that extra line passes the allow-list check and is valid.
\<close>

theorem proto_key_is_dropped:
  "parse_frontmatter ''__proto__: x'' = []
   \<and> parse_frontmatter ''proto: x'' = [(''proto'', ''x'')]
   \<and> parsed_header
        (sample_platform (Some ''---\<newline>name: a\<newline>description: b\<newline>__proto__: x\<newline>---''))
        ''/skills/demo''
       = Some [(''name'', ''a''), (''description'', ''b'')]
   \<and> fst (validateSkill
        (sample_platform (Some ''---\<newline>name: a\<newline>description: b\<newline>__proto__: x\<newline>---''))
        ''/skills/demo'') = success ''Skill is valid!''
   \<and> valid (fst (validateSkill
        (sample_platform (Some ''---\<newline>name: a\<newline>description: b\<newline>proto: x\<newline>---''))
        ''/skills/demo'')) = False"
  by code_simp

text \<open>
  C7, as amended. \<open>validateSkill\<close> evaluates its rules in the order manifest exists,
  readable, header parseable, allow-list, name present, description present, name
  character set, name hyphen placement, name length, description angle brackets,
  description length, and returns at the first rule that is violated, where the header is
  parseable as claims C3 and C5 are amended, and a field is present when it is there with
  a value that is not empty. In particular a header with a field outside the allow-list
  gives the unexpected-key failure, which lists all unexpected field names in
  lexicographic order and the allowed names in lexicographic order, whether or not the
  header has a \<open>name\<close>. Both parts are for headers without a field named \<open>__proto__\<close>:
  what becomes of such a line is the matter of claim C6 and is left open here. The rules
  and the header are those of the section on the rules of the specification, the header
  read from the text of the manifest.
\<close>

theorem rules_in_order_first_violation_wins:
  assumes "\<forall>flds. manifest_header sys p = Some flds \<longrightarrow> ''__proto__'' \<notin> set (map fst flds)"
  shows "fst (validateSkill sys p) =
           (case first_violation validation_rules sys p of
              None \<Rightarrow> success ''Skill is valid!'' | Some m \<Rightarrow> failure m)
     \<and> (\<forall>flds. manifest_header sys p = Some flds \<and> \<not> set (map fst flds) \<subseteq> allowed_names
          \<longrightarrow> fst (validateSkill sys p) =
              failure (''Unexpected key(s) in SKILL.md frontmatter: ''
                @ join_with '', '' (sorted_list_of_set (set (map fst flds) - allowed_names))
                @ ''. Allowed properties are: allowed-tools, description, license, metadata, name''))"
proof (intro conjI allI impI)
  show "fst (validateSkill sys p) =
           (case first_violation validation_rules sys p of
              None \<Rightarrow> success ''Skill is valid!'' | Some m \<Rightarrow> failure m)"
    using assms by (rule validateSkill_validation_rules)
next
  fix flds
  assume h: "manifest_header sys p = Some flds \<and> \<not> set (map fst flds) \<subseteq> allowed_names"
  with assms have np: "''__proto__'' \<notin> set (map fst flds)" by blast
  from h have m: "manifest_header sys p = Some flds"
    and u: "\<not> set (map fst flds) \<subseteq> allowed_names" by blast+
  from m np u show "fst (validateSkill sys p) =
              failure (''Unexpected key(s) in SKILL.md frontmatter: ''
                @ join_with '', '' (sorted_list_of_set (set (map fst flds) - allowed_names))
                @ ''. Allowed properties are: allowed-tools, description, license, metadata, name'')"
    by (rule validateSkill_unexpected_fields)
qed

text \<open>
  The theorem at a header with two fields outside the allow-list and no \<open>name\<close>: the
  first violated rule of the list is the allow-list, and the message lists \<open>author\<close>
  before \<open>zed\<close>.
\<close>

theorem rules_in_order_first_violation_wins_witness:
  "manifest_header (sample_platform (Some ''---\<newline>zed: 1\<newline>description: x\<newline>author: Jane\<newline>---''))
     ''/skills/demo''
     = Some [(''zed'', ''1''), (''description'', ''x''), (''author'', ''Jane'')]
   \<and> ''__proto__'' \<notin> set (map fst [(''zed'', ''1''), (''description'', ''x''), (''author'', ''Jane'')])
   \<and> \<not> set (map fst [(''zed'', ''1''), (''description'', ''x''), (''author'', ''Jane'')])
         \<subseteq> allowed_names
   \<and> map_of [(''zed'', ''1''), (''description'', ''x''), (''author'', ''Jane'')] ''name'' = None
   \<and> first_violation validation_rules
        (sample_platform (Some ''---\<newline>zed: 1\<newline>description: x\<newline>author: Jane\<newline>---''))
        ''/skills/demo''
       = Some (''Unexpected key(s) in SKILL.md frontmatter: author, zed. ''
               @ ''Allowed properties are: allowed-tools, description, license, metadata, name'')
   \<and> fst (validateSkill
        (sample_platform (Some ''---\<newline>zed: 1\<newline>description: x\<newline>author: Jane\<newline>---''))
        ''/skills/demo'')
       = failure (''Unexpected key(s) in SKILL.md frontmatter: author, zed. ''
               @ ''Allowed properties are: allowed-tools, description, license, metadata, name'')"
proof -
  let ?sys = "sample_platform (Some ''---\<newline>zed: 1\<newline>description: x\<newline>author: Jane\<newline>---'')"
  let ?hdr = "[(''zed'', ''1''), (''description'', ''x''), (''author'', ''Jane'')]"
  have h: "manifest_header ?sys ''/skills/demo'' = Some ?hdr" by code_simp
  have np: "''__proto__'' \<notin> set (map fst ?hdr)" by simp
  have k: "\<not> set (map fst ?hdr) \<subseteq> allowed_names" by code_simp
  have n: "map_of ?hdr ''name'' = None" by simp
  have a: "\<forall>flds. manifest_header ?sys ''/skills/demo'' = Some flds
             \<longrightarrow> ''__proto__'' \<notin> set (map fst flds)"
    unfolding h using np by blast
  note t = rules_in_order_first_violation_wins[OF a]
  have f: "first_violation validation_rules ?sys ''/skills/demo''
       = Some (''Unexpected key(s) in SKILL.md frontmatter: author, zed. ''
               @ ''Allowed properties are: allowed-tools, description, license, metadata, name'')"
    by code_simp
  from t have "fst (validateSkill ?sys ''/skills/demo'') =
           (case first_violation validation_rules ?sys ''/skills/demo'' of
              None \<Rightarrow> success ''Skill is valid!'' | Some m \<Rightarrow> failure m)"
    by (rule conjunct1)
  then have v: "fst (validateSkill ?sys ''/skills/demo'')
       = failure (''Unexpected key(s) in SKILL.md frontmatter: author, zed. ''
               @ ''Allowed properties are: allowed-tools, description, license, metadata, name'')"
    unfolding f by simp
  from h np k n f v show ?thesis by (intro conjI)
qed

text \<open>
  The claim as first stated fails with the rules as the specification words them. At a
  header whose \<open>name\<close> line has no value the field is present, so the first rule
  violated is the character set of the name, and the script returns the message of rule
  5: that is the test of line 82, by design. At a header with a \<open>__proto__\<close> line and no
  name the first rule violated is the allow-list, and the script returns the missing-name
  message: that is the defect of claim C6. At a text that starts with the delimiter
  characters and more on the same line, rule 3 as worded reports a missing header and the
  script a malformed one, as under claims C3 and C5.
\<close>

theorem claimed_rules_counterexample:
  "first_violation claimed_rules
     (sample_platform (Some ''---\<newline>name:\<newline>description: x\<newline>---'')) ''/skills/demo''
     = Some (''Name '' @ [CHR 0x27, CHR 0x27]
             @ '' should be hyphen-case (lowercase letters, digits, and hyphens only)'')
   \<and> fst (validateSkill
        (sample_platform (Some ''---\<newline>name:\<newline>description: x\<newline>---'')) ''/skills/demo'')
     = failure (''Missing '' @ [CHR 0x27] @ ''name'' @ [CHR 0x27] @ '' in frontmatter'')
   \<and> first_violation claimed_rules
     (sample_platform (Some ''---\<newline>__proto__: x\<newline>description: y\<newline>---'')) ''/skills/demo''
     = Some (''Unexpected key(s) in SKILL.md frontmatter: __proto__. ''
             @ ''Allowed properties are: allowed-tools, description, license, metadata, name'')
   \<and> fst (validateSkill
        (sample_platform (Some ''---\<newline>__proto__: x\<newline>description: y\<newline>---'')) ''/skills/demo'')
     = failure (''Missing '' @ [CHR 0x27] @ ''name'' @ [CHR 0x27] @ '' in frontmatter'')
   \<and> first_violation claimed_rules (sample_platform (Some ''---x'')) ''/skills/demo''
     = Some ''No YAML frontmatter found''
   \<and> fst (validateSkill (sample_platform (Some ''---x'')) ''/skills/demo'')
     = failure ''Invalid frontmatter format''"
  by code_simp

text \<open>
  C8. The path that a successful run returns is the basename of the skill directory
  followed by \<open>.skill\<close>, in the output directory given, which \<open>mkdir\<close> has made, or
  in the working directory, and the command run names that path
  (\<open>packageSkill_returned_path\<close>). The artifact itself is written by the shell command
  of line 83, which puts the paths between double quotes, where the shell still expands
  \<open>$\<close> and the backquote. Evaluated here: with the output directory \<open>out$x\<close> the
  script makes the directory \<open>/work/out$x\<close>, returns a path inside it, and hands the
  shell a command in which \<open>$x\<close> stands unescaped between double quotes.
\<close>

theorem packageSkill_shell_expands_output_path:
  \<open>packageSkill (sample_platform (Some ''---\<newline>name: demo\<newline>description: x\<newline>---''))
     ''/skills/demo'' (Some ''out$x'')
   = (Returned (Some ''/work/out$x/demo.skill''),
      [ExistsSync ''/skills/demo'', StatSync ''/skills/demo'',
       ExistsSync ''/skills/demo/SKILL.md'',
       ConsoleLog (magnifier @ '' Validating skill...''),
       ExistsSync ''/skills/demo/SKILL.md'', ReadFile ''/skills/demo/SKILL.md'',
       ConsoleLog (check_mark @ '' Skill is valid!\<newline>''),
       Mkdir ''/work/out$x'',
       ConsoleLog ''Executing: cd "/skills" && zip -r "/work/out$x/demo.skill" "demo"'',
       Exec ''cd "/skills" && zip -r "/work/out$x/demo.skill" "demo"'',
       ConsoleLog (''\<newline>'' @ check_mark
         @ '' Successfully packaged skill to: /work/out$x/demo.skill'')])\<close>
  by code_simp

text \<open>
  C9. \<open>validateSkill\<close> only reads: the calls it makes are \<open>existsSync\<close> and \<open>readFile\<close>
  on the manifest, and its result is a function of the presence and the content of the
  manifest. Two calls on machines that agree on the manifest, as the machine before and
  after a call does, return the same flag and message, whatever else differs.
\<close>

theorem validateSkill_only_reads_the_manifest:
  "set (snd (validateSkill sys p))
      \<subseteq> {ExistsSync (skillMdPath sys p), ReadFile (skillMdPath sys p)}
   \<and> (\<forall>sys'. path_resolve sys' = path_resolve sys \<and> path_join sys' = path_join sys
          \<and> exists_sync sys' (skillMdPath sys p) = exists_sync sys (skillMdPath sys p)
          \<and> read_file sys' (skillMdPath sys p) = read_file sys (skillMdPath sys p)
        \<longrightarrow> validateSkill sys' p = validateSkill sys p)"
proof (intro conjI allI impI)
  show "set (snd (validateSkill sys p))
      \<subseteq> {ExistsSync (skillMdPath sys p), ReadFile (skillMdPath sys p)}"
    by (simp add: validateSkill_def Let_def split: sum.splits)
next
  fix sys' :: platform
  assume h: "path_resolve sys' = path_resolve sys \<and> path_join sys' = path_join sys
          \<and> exists_sync sys' (skillMdPath sys p) = exists_sync sys (skillMdPath sys p)
          \<and> read_file sys' (skillMdPath sys p) = read_file sys (skillMdPath sys p)"
  then have "skillMdPath sys' p = skillMdPath sys p" by (simp add: skillMdPath_def)
  with h show "validateSkill sys' p = validateSkill sys p"
    by (simp add: validateSkill_def Let_def)
qed

text \<open>
  The theorem at two machines with the same manifest and a different working directory,
  directory test and shell.
\<close>

theorem validateSkill_only_reads_the_manifest_witness:
  "path_resolve (sample_platform (Some ''---\<newline>name: demo\<newline>description: x\<newline>---'')
                  \<lparr>process_cwd := ''/elsewhere'', is_directory := (\<lambda>p. False),
                    exec := (\<lambda>cmd. Some ''zip: not found'')\<rparr>)
     = path_resolve (sample_platform (Some ''---\<newline>name: demo\<newline>description: x\<newline>---''))
   \<and> validateSkill
        (sample_platform (Some ''---\<newline>name: demo\<newline>description: x\<newline>---'')
           \<lparr>process_cwd := ''/elsewhere'', is_directory := (\<lambda>p. False),
             exec := (\<lambda>cmd. Some ''zip: not found'')\<rparr>)
        ''/skills/demo''
       = validateSkill (sample_platform (Some ''---\<newline>name: demo\<newline>description: x\<newline>---''))
           ''/skills/demo''
   \<and> validateSkill (sample_platform (Some ''---\<newline>name: demo\<newline>description: x\<newline>---''))
         ''/skills/demo''
       = (success ''Skill is valid!'',
          [ExistsSync ''/skills/demo/SKILL.md'', ReadFile ''/skills/demo/SKILL.md''])"
proof -
  let ?sys = "sample_platform (Some ''---\<newline>name: demo\<newline>description: x\<newline>---'')"
  let ?sys' = "?sys\<lparr>process_cwd := ''/elsewhere'', is_directory := (\<lambda>p. False),
                    exec := (\<lambda>cmd. Some ''zip: not found'')\<rparr>"
  have a: "path_resolve ?sys' = path_resolve ?sys \<and> path_join ?sys' = path_join ?sys
      \<and> exists_sync ?sys' (skillMdPath ?sys ''/skills/demo'')
          = exists_sync ?sys (skillMdPath ?sys ''/skills/demo'')
      \<and> read_file ?sys' (skillMdPath ?sys ''/skills/demo'')
          = read_file ?sys (skillMdPath ?sys ''/skills/demo'')"
    by simp
  from validateSkill_only_reads_the_manifest[of ?sys "''/skills/demo''"] a
  have b: "validateSkill ?sys' ''/skills/demo'' = validateSkill ?sys ''/skills/demo''"
    by blast
  have c: "validateSkill ?sys ''/skills/demo''
       = (success ''Skill is valid!'',
          [ExistsSync ''/skills/demo/SKILL.md'', ReadFile ''/skills/demo/SKILL.md''])"
    by code_simp
  from a b c show ?thesis by (intro conjI) simp_all
qed



end
